theory Spec2Isabelle
  imports Complex_Main "HOL-Library.AList"
begin

section \<open>JavaScript values and objects\<close>

text \<open>
  Request bodies, response bodies, socket payloads, conversation turns and stored
  bookings are plain JavaScript objects. A value is one of the JSON kinds plus
  \<open>undefined\<close> and \<open>NaN\<close>; numbers are exact reals. An object is its list of
  (property, value) pairs in insertion order.
\<close>

datatype jsval =
    JUndefined
  | JNull
  | JBool bool
  | JNum real
  | JNaN
  | JStr string
  | JArr "jsval list"
  | JObj "(string \<times> jsval) list"

type_synonym obj = "(string \<times> jsval) list"

text \<open>\<open>o[k]\<close>: a missing property reads as \<open>undefined\<close>.\<close>

definition get_prop :: "obj \<Rightarrow> string \<Rightarrow> jsval" where
  "get_prop ob k = (case map_of ob k of None \<Rightarrow> JUndefined | Some v \<Rightarrow> v)"

text \<open>Truthiness, as \<open>if (v)\<close>, \<open>!v\<close> and \<open>v || d\<close> read it.\<close>

fun truthy :: "jsval \<Rightarrow> bool" where
  "truthy JUndefined = False"
| "truthy JNull = False"
| "truthy (JBool b) = b"
| "truthy (JNum x) = (x \<noteq> 0)"
| "truthy JNaN = False"
| "truthy (JStr s) = (s \<noteq> [])"
| "truthy (JArr _) = True"
| "truthy (JObj _) = True"

text \<open>\<open>a || b\<close>\<close>

definition js_or :: "jsval \<Rightarrow> jsval \<Rightarrow> jsval" where
  "js_or a b = (if truthy a then a else b)"

text \<open>
  \<open>a === b\<close>: primitives compare by kind and value, \<open>NaN\<close> equals nothing, and two
  arrays or objects that come from different places are different references.
\<close>

fun strict_eq :: "jsval \<Rightarrow> jsval \<Rightarrow> bool" where
  "strict_eq JUndefined JUndefined = True"
| "strict_eq JNull JNull = True"
| "strict_eq (JBool a) (JBool b) = (a = b)"
| "strict_eq (JNum a) (JNum b) = (a = b)"
| "strict_eq (JStr a) (JStr b) = (a = b)"
| "strict_eq _ _ = False"

text \<open>
  \<open>{...a, ...b}\<close>: the properties of \<open>b\<close> are assigned onto \<open>a\<close> in order; an existing
  property keeps its place and takes the new value, a new one goes to the end.
\<close>

definition spread :: "obj \<Rightarrow> obj \<Rightarrow> obj" where
  "spread a b = foldl (\<lambda>acc kv. AList.update (fst kv) (snd kv) acc) a b"

text \<open>\<open>xs.slice(-n)\<close> for a positive \<open>n\<close>: the last \<open>n\<close> elements, all of them when there are fewer.\<close>

definition slice_last :: "nat \<Rightarrow> 'a list \<Rightarrow> 'a list" where
  "slice_last n xs = drop (length xs - n) xs"

text \<open>
  The text of a string value. Every \<open>response\<close> the service builds is a string, and the
  callbacks and handlers below take it as one.
\<close>

fun str_of :: "jsval \<Rightarrow> string" where
  "str_of (JStr s) = s"
| "str_of _ = []"

section \<open>Strings\<close>

text \<open>\<open>s.startsWith(n)\<close> and \<open>s.includes(n)\<close>.\<close>

fun startsWith :: "string \<Rightarrow> string \<Rightarrow> bool" where
  "startsWith s [] = True"
| "startsWith [] (n # ns) = False"
| "startsWith (c # cs) (n # ns) = (c = n \<and> startsWith cs ns)"

fun str_includes :: "string \<Rightarrow> string \<Rightarrow> bool" where
  "str_includes [] needle = (needle = [])"
| "str_includes (c # cs) needle = (startsWith (c # cs) needle \<or> str_includes cs needle)"

text \<open>\<open>s.toLowerCase()\<close> on the ASCII letters (a \<open>char\<close> is a byte).\<close>

definition lower_char :: "char \<Rightarrow> char" where
  "lower_char c =
     (let n = (of_char c :: nat) in if 65 \<le> n \<and> n \<le> 90 then char_of (n + 32) else c)"

definition toLowerCase :: "string \<Rightarrow> string" where
  "toLowerCase s = map lower_char s"

text \<open>\<open>s.trim()\<close>: the ASCII white space (space, tab, line feed, vertical tab, form feed, carriage return).\<close>

definition is_space :: "char \<Rightarrow> bool" where
  "is_space c = ((of_char c :: nat) \<in> {32, 9, 10, 11, 12, 13})"

definition trim :: "string \<Rightarrow> string" where
  "trim s = rev (dropWhile is_space (rev (dropWhile is_space s)))"

text \<open>\<open>xs.join(' ')\<close>\<close>

fun join_space :: "string list \<Rightarrow> string" where
  "join_space [] = []"
| "join_space [x] = x"
| "join_space (x # y # ys) = x @ '' '' @ join_space (y # ys)"

section \<open>Conversation contexts (routes/chat.js, routes/voice.js, utils/socketHandler.js)\<close>

text \<open>
  Each handler keeps a \<open>Map\<close> from a context key to an array of turns. The key is
  \<open>`${userId}_${conversationId || 'default'}`\<close>.
\<close>

type_synonym contexts = "string \<rightharpoonup> obj list"

definition or_default :: "string option \<Rightarrow> string" where
  "or_default i = (case i of None \<Rightarrow> ''default'' | Some s \<Rightarrow> if s = [] then ''default'' else s)"

definition contextKey :: "string \<Rightarrow> string option \<Rightarrow> string" where
  "contextKey userId conversationId = userId @ ''_'' @ or_default conversationId"

text \<open>\<open>conversations.get(contextKey) || []\<close>\<close>

definition get_context :: "contexts \<Rightarrow> string \<Rightarrow> obj list" where
  "get_context conversations key = (case conversations key of None \<Rightarrow> [] | Some c \<Rightarrow> c)"

text \<open>
  \<open>context.push(u, a); if (context.length > 20) context = context.slice(-20);\<close>
\<close>

definition push_exchange :: "obj \<Rightarrow> obj \<Rightarrow> obj list \<Rightarrow> obj list" where
  "push_exchange u a context =
     (let context = context @ [u, a]
      in if length context > 20 then slice_last 20 context else context)"

text \<open>The whole update of a handler: read the context, push, cap, \<open>conversations.set\<close>.\<close>

definition remember :: "contexts \<Rightarrow> string \<Rightarrow> obj \<Rightarrow> obj \<Rightarrow> contexts" where
  "remember conversations key u a =
     conversations(key \<mapsto> push_exchange u a (get_context conversations key))"

text \<open>The turns the text handlers push.\<close>

definition user_turn :: "string \<Rightarrow> obj" where
  "user_turn message = [(''role'', JStr ''user''), (''content'', JStr message)]"

definition assistant_turn :: "jsval \<Rightarrow> obj" where
  "assistant_turn response = [(''role'', JStr ''assistant''), (''content'', response)]"

text \<open>The turns the voice handlers push.\<close>

definition voice_user_turn :: "string \<Rightarrow> obj" where
  "voice_user_turn transcript =
     [(''role'', JStr ''user''), (''content'', JStr transcript), (''type'', JStr ''voice'')]"

definition voice_assistant_turn :: "jsval \<Rightarrow> obj" where
  "voice_assistant_turn response =
     [(''role'', JStr ''assistant''), (''content'', response), (''type'', JStr ''voice'')]"

text \<open>
  A run of append operations, each on some key with its two turns, from any starting
  \<open>Map\<close>; and what the list of operations says was appended under one key.
\<close>

definition run_appends :: "contexts \<Rightarrow> (string \<times> obj \<times> obj) list \<Rightarrow> contexts" where
  "run_appends conversations ops =
     foldl (\<lambda>c op. remember c (fst op) (fst (snd op)) (snd (snd op))) conversations ops"

definition exchanges_of :: "string \<Rightarrow> (string \<times> obj \<times> obj) list \<Rightarrow> (obj \<times> obj) list" where
  "exchanges_of key ops = map snd (filter (\<lambda>op. fst op = key) ops)"

definition flatten :: "(obj \<times> obj) list \<Rightarrow> obj list" where
  "flatten ps = concat (map (\<lambda>p. [fst p, snd p]) ps)"

section \<open>The response orchestrator (utils/aiService.js)\<close>

text \<open>
  A thrown value is an \<open>Error\<close> with its message: the OpenAI SDK, axios and the
  runtime's \<open>TypeError\<close> all throw \<open>Error\<close> objects. A call that can throw returns
  \<open>js_error + 'a\<close>, \<open>Inl\<close> for the throw.
\<close>

datatype js_error = Error string

fun message_of :: "js_error \<Rightarrow> string" where
  "message_of (Error m) = m"

text \<open>
  What the providers answer is outside the repository. A chat completion is the
  content of each of its choices and its usage block; a streamed completion is the
  content of each chunk (\<open>chunk.choices[0]?.delta?.content\<close>, absent in some chunks)
  and the error that ends the iteration early, if one does; the instant-answer API
  returns three text fields, empty when it has nothing; the search page is reduced to
  the texts of the elements the selector matches, in document order.
\<close>

record completion =
  choices :: "string list"
  usage :: jsval

record completion_stream =
  chunks :: "string option list"
  failure :: "js_error option"

record ddg_data =
  AbstractText :: string
  Answer :: string
  Definition :: string

text \<open>
  The service's two availability flags (set once, from the environment's API keys),
  the clock reading \<open>new Date().toISOString()\<close>, whether \<open>NODE_ENV\<close> is
  \<open>development\<close>, and the outside world. Every outside
  call is logged; the answer to a call may depend on how many calls were made before
  it, so a call repeated inside one request may be answered differently.
\<close>

record ai_env =
  isDeepSeekAvailable :: bool
  isOpenAIAvailable :: bool
  deepseek_create :: "nat \<Rightarrow> obj \<Rightarrow> js_error + completion"
  openai_create :: "nat \<Rightarrow> obj \<Rightarrow> js_error + completion"
  deepseek_create_stream :: "nat \<Rightarrow> obj \<Rightarrow> js_error + completion_stream"
  openai_create_stream :: "nat \<Rightarrow> obj \<Rightarrow> js_error + completion_stream"
  duckduckgo_get :: "nat \<Rightarrow> string \<Rightarrow> js_error + ddg_data"
  google_get :: "nat \<Rightarrow> string \<Rightarrow> js_error + string list"
  nowISO :: string
  development :: bool

datatype provider_call =
    DeepSeekCall obj
  | OpenAICall obj
  | DuckDuckGoCall string
  | GoogleCall string

type_synonym call_log = "provider_call list"

definition system_turn :: "ai_env \<Rightarrow> obj" where
  "system_turn env =
     [(''role'', JStr ''system''),
      (''content'', JStr (''You are Neura-X Guardian Angel, a helpful AI assistant. You provide accurate, helpful, and friendly responses. Current time: '' @ nowISO env))]"

text \<open>The messages of every provider call: the system turn, \<open>...context.slice(-10)\<close>, the user turn.\<close>

definition build_messages :: "ai_env \<Rightarrow> string \<Rightarrow> obj list \<Rightarrow> jsval" where
  "build_messages env msg context =
     JArr (map JObj (system_turn env # slice_last 10 context @ [user_turn msg]))"

text \<open>\<open>completion.choices[0].message.content\<close>: a \<open>TypeError\<close> when there is no first choice.\<close>

definition first_choice :: "completion \<Rightarrow> js_error + string" where
  "first_choice c =
     (case choices c of
        [] \<Rightarrow> Inl (Error ''Cannot read properties of undefined (reading 'message')'')
      | content # _ \<Rightarrow> Inr content)"

definition callDeepSeek ::
  "ai_env \<Rightarrow> string \<Rightarrow> obj list \<Rightarrow> bool \<Rightarrow> call_log \<Rightarrow> (js_error + obj) \<times> call_log" where
  "callDeepSeek env msg context useReasoner calls =
     (let mdl = (if useReasoner then ''deepseek-reasoner'' else ''deepseek-chat'');
          request = [(''model'', JStr mdl), (''messages'', build_messages env msg context),
                     (''temperature'', JNum (7 / 10)), (''max_tokens'', JNum 2000),
                     (''stream'', JBool False)];
          calls1 = calls @ [DeepSeekCall request]
      in case deepseek_create env (length calls) request of
           Inl e \<Rightarrow> (Inl e, calls1)
         | Inr c \<Rightarrow>
             (case first_choice c of
                Inl e \<Rightarrow> (Inl e, calls1)
              | Inr content \<Rightarrow>
                  (Inr [(''response'', JStr content), (''source'', JStr ''deepseek''),
                        (''model'', JStr mdl), (''timestamp'', JStr (nowISO env)),
                        (''usage'', usage c)], calls1)))"

definition callOpenAI ::
  "ai_env \<Rightarrow> string \<Rightarrow> obj list \<Rightarrow> call_log \<Rightarrow> (js_error + obj) \<times> call_log" where
  "callOpenAI env msg context calls =
     (let request = [(''model'', JStr ''gpt-3.5-turbo''), (''messages'', build_messages env msg context),
                     (''temperature'', JNum (7 / 10)), (''max_tokens'', JNum 2000)];
          calls1 = calls @ [OpenAICall request]
      in case openai_create env (length calls) request of
           Inl e \<Rightarrow> (Inl e, calls1)
         | Inr c \<Rightarrow>
             (case first_choice c of
                Inl e \<Rightarrow> (Inl e, calls1)
              | Inr content \<Rightarrow>
                  (Inr [(''response'', JStr content), (''source'', JStr ''openai''),
                        (''model'', JStr ''gpt-3.5-turbo''), (''timestamp'', JStr (nowISO env)),
                        (''usage'', usage c)], calls1)))"

text \<open>
  \<open>scrapeSearchResults\<close>: of the first three matched elements, the trimmed texts longer
  than 20 characters, joined; it catches its own errors and always returns a string.
\<close>

definition scrapeSearchResults :: "ai_env \<Rightarrow> string \<Rightarrow> call_log \<Rightarrow> string \<times> call_log" where
  "scrapeSearchResults env query calls =
     (let calls1 = calls @ [GoogleCall query]
      in case google_get env (length calls) query of
           Inl e \<Rightarrow> (''I'm having trouble accessing web information right now.'', calls1)
         | Inr texts \<Rightarrow>
             (let snippets = filter (\<lambda>t. length t > 20) (map trim (take 3 texts))
              in if length snippets > 0
                 then (''Based on web search: '' @ join_space snippets, calls1)
                 else (''I found some information but couldn't extract clear details. Please try a more specific question.'', calls1)))"

text \<open>
  \<open>webSearch\<close>: the instant answer if it has one, else the scraped snippets; an error
  of the instant-answer request is logged and thrown again.
\<close>

definition webSearch :: "ai_env \<Rightarrow> string \<Rightarrow> call_log \<Rightarrow> (js_error + obj) \<times> call_log" where
  "webSearch env query calls =
     (let calls1 = calls @ [DuckDuckGoCall query]
      in case duckduckgo_get env (length calls) query of
           Inl e \<Rightarrow> (Inl e, calls1)
         | Inr d \<Rightarrow>
             (let (result, calls2) =
                    (if AbstractText d \<noteq> [] then (AbstractText d, calls1)
                     else if Answer d \<noteq> [] then (Answer d, calls1)
                     else if Definition d \<noteq> [] then (Definition d, calls1)
                     else scrapeSearchResults env query calls1)
              in (Inr [(''response'',
                         JStr (if result \<noteq> [] then result
                               else ''I couldn't find specific information about that. Could you please rephrase your question?'')),
                       (''source'', JStr ''web_search''),
                       (''timestamp'', JStr (nowISO env))], calls2)))"

text \<open>The reply of last resort.\<close>

definition apology :: "ai_env \<Rightarrow> obj" where
  "apology env =
     [(''response'', JStr ''I'm having trouble processing your request right now. Please try again later.''),
      (''source'', JStr ''error''),
      (''timestamp'', JStr (nowISO env))]"

text \<open>
  \<open>processMessage\<close>. The \<open>try\<close> block makes one call: the primary if it is available,
  else the secondary if it is available, else the web search. The \<open>catch\<close> block calls
  the secondary only when it is available and the caught error's message contains
  \<open>DeepSeek\<close>, swallowing its error; then the web search, whose error becomes the apology.
\<close>

definition processMessage ::
  "ai_env \<Rightarrow> string \<Rightarrow> obj list \<Rightarrow> bool \<Rightarrow> call_log \<Rightarrow> (js_error + obj) \<times> call_log" where
  "processMessage env msg context useReasoner calls =
     (case (if isDeepSeekAvailable env then callDeepSeek env msg context useReasoner calls
            else if isOpenAIAvailable env then callOpenAI env msg context calls
            else webSearch env msg calls) of
        (Inr r, calls1) \<Rightarrow> (Inr r, calls1)
      | (Inl error, calls1) \<Rightarrow>
          (case (if isOpenAIAvailable env \<and> str_includes (message_of error) ''DeepSeek''
                 then (case callOpenAI env msg context calls1 of
                         (Inr r, calls2) \<Rightarrow> (Some r, calls2)
                       | (Inl openaiError, calls2) \<Rightarrow> (None, calls2))
                 else (None, calls1)) of
             (Some r, calls2) \<Rightarrow> (Inr r, calls2)
           | (None, calls2) \<Rightarrow>
               (case webSearch env msg calls2 of
                  (Inr r, calls3) \<Rightarrow> (Inr r, calls3)
                | (Inl searchError, calls3) \<Rightarrow> (Inr (apology env), calls3))))"

text \<open>\<open>shouldUseReasoner\<close>: some keyword occurs in the lower-cased message.\<close>

definition reasoningKeywords :: "string list" where
  "reasoningKeywords =
     [''analyze'', ''explain'', ''reasoning'', ''logic'', ''problem'', ''solve'',
      ''calculate'', ''math'', ''complex'', ''detailed'', ''step by step'']"

definition shouldUseReasoner :: "string \<Rightarrow> bool" where
  "shouldUseReasoner msg = list_ex (\<lambda>keyword. str_includes (toLowerCase msg) keyword) reasoningKeywords"


text \<open>
  \<open>streamResponse\<close>. The \<open>for await\<close> loop hands every non-empty chunk content to the
  callback with \<open>false\<close> and adds it to the local \<open>fullResponse\<close>, which nothing reads
  afterwards. The callback changes the caller's state \<open>'c\<close>.
\<close>

fun stream_chunks ::
  "(string \<Rightarrow> bool \<Rightarrow> 'c \<Rightarrow> 'c) \<Rightarrow> string option list \<Rightarrow> string \<times> 'c \<Rightarrow> string \<times> 'c" where
  "stream_chunks callback [] (fullResponse, c) = (fullResponse, c)"
| "stream_chunks callback (chunk # rest) (fullResponse, c) =
     (let content = (case chunk of None \<Rightarrow> [] | Some s \<Rightarrow> s)
      in if content \<noteq> []
         then stream_chunks callback rest (fullResponse @ content, callback content False c)
         else stream_chunks callback rest (fullResponse, c))"

definition streamResponse ::
  "ai_env \<Rightarrow> string \<Rightarrow> obj list \<Rightarrow> (string \<Rightarrow> bool \<Rightarrow> 'c \<Rightarrow> 'c) \<Rightarrow> 'c \<Rightarrow> call_log \<Rightarrow> 'c \<times> call_log" where
  "streamResponse env msg context callback c calls =
     (if \<not> isDeepSeekAvailable env \<and> \<not> isOpenAIAvailable env
      then (case webSearch env msg calls of
              (Inr result, calls1) \<Rightarrow>
                (callback (str_of (get_prop result ''response'')) True c, calls1)
            | (Inl error, calls1) \<Rightarrow>
                (callback ''Sorry, I encountered an error while processing your request.'' True c, calls1))
      else
        (let mdl = (if isDeepSeekAvailable env then ''deepseek-chat'' else ''gpt-3.5-turbo'');
             request = [(''model'', JStr mdl), (''messages'', build_messages env msg context),
                        (''temperature'', JNum (7 / 10)), (''max_tokens'', JNum 2000),
                        (''stream'', JBool True)];
             calls1 = calls @ [if isDeepSeekAvailable env then DeepSeekCall request else OpenAICall request]
         in case (if isDeepSeekAvailable env then deepseek_create_stream env (length calls) request
                  else openai_create_stream env (length calls) request) of
              Inl error \<Rightarrow>
                (callback ''Sorry, I encountered an error while processing your request.'' True c, calls1)
            | Inr stream \<Rightarrow>
                (let (fullResponse, c1) = stream_chunks callback (chunks stream) ([], c)
                 in case failure stream of
                      None \<Rightarrow> (callback [] True c1, calls1)
                    | Some error \<Rightarrow>
                        (callback ''Sorry, I encountered an error while processing your request.'' True c1, calls1))))"

section \<open>The HTTP chat routes (routes/chat.js)\<close>

text \<open>
  The state the HTTP routes keep in memory: the \<open>conversations\<close> map of chat.js, the
  \<open>voiceSessions\<close> map of the voice routes, and the log of outside calls.
\<close>

record http_state =
  conversations :: contexts
  voiceSessions :: contexts
  ai_calls :: call_log

record http_response =
  status :: nat
  body :: obj

text \<open>\<open>!v\<close> for an optional string of the request body: absent or empty.\<close>

definition missing :: "string option \<Rightarrow> bool" where
  "missing v = (case v of None \<Rightarrow> True | Some s \<Rightarrow> s = [])"

text \<open>\<open>router.post('/')\<close>\<close>

definition chat_post ::
  "ai_env \<Rightarrow> string option \<Rightarrow> string option \<Rightarrow> string option \<Rightarrow> bool option \<Rightarrow> http_state
     \<Rightarrow> http_response \<times> http_state" where
  "chat_post env message userId conversationId useReasoner st =
     (case (message, userId) of
        (Some msg, Some uid) \<Rightarrow>
          if msg = [] \<or> uid = []
          then (\<lparr>status = 400,
                 body = [(''error'', JStr ''Message and userId are required''), (''success'', JBool False)]\<rparr>, st)
          else
            (let key = contextKey uid conversationId;
                 context = get_context (conversations st) key;
                 reasoner = ((case useReasoner of None \<Rightarrow> False | Some b \<Rightarrow> b) \<or> shouldUseReasoner msg)
             in case processMessage env msg context reasoner (ai_calls st) of
                  (Inr result, calls1) \<Rightarrow>
                    (\<lparr>status = 200,
                      body = [(''success'', JBool True),
                              (''response'', get_prop result ''response''),
                              (''source'', get_prop result ''source''),
                              (''model'', get_prop result ''model''),
                              (''timestamp'', get_prop result ''timestamp''),
                              (''usage'', get_prop result ''usage''),
                              (''conversationId'', JStr (or_default conversationId))]\<rparr>,
                     st\<lparr>conversations :=
                          remember (conversations st) key (user_turn msg)
                            (assistant_turn (get_prop result ''response'')),
                        ai_calls := calls1\<rparr>)
                | (Inl error, calls1) \<Rightarrow>
                    (\<lparr>status = 500,
                      body = [(''error'', JStr ''Failed to process chat message''), (''success'', JBool False),
                              (''details'', if development env then JStr (message_of error) else JUndefined)]\<rparr>,
                     st\<lparr>ai_calls := calls1\<rparr>))
      | _ \<Rightarrow>
          (\<lparr>status = 400,
            body = [(''error'', JStr ''Message and userId are required''), (''success'', JBool False)]\<rparr>, st))"

text \<open>
  \<open>router.post('/stream')\<close>. What the callback closes over and changes: the local
  \<open>fullResponse\<close>, the \<open>conversations\<close> map, the frames written to the response and
  whether \<open>res.end()\<close> was called. The \<open>context\<close> array is read once, before streaming.
\<close>

record stream_state =
  fullResponse :: string
  store :: contexts
  frames :: "obj list"
  ended :: bool

definition stream_callback ::
  "ai_env \<Rightarrow> string \<Rightarrow> string \<Rightarrow> obj list \<Rightarrow> string \<Rightarrow> bool \<Rightarrow> stream_state \<Rightarrow> stream_state" where
  "stream_callback env key msg context chunk isComplete s =
     (if \<not> isComplete
      then s\<lparr>fullResponse := fullResponse s @ chunk,
             frames := frames s @ [[(''type'', JStr ''chunk''), (''content'', JStr chunk),
                                    (''timestamp'', JStr (nowISO env))]]\<rparr>
      else s\<lparr>store := (store s)(key \<mapsto>
                 push_exchange (user_turn msg) (assistant_turn (JStr (fullResponse s))) context),
             frames := frames s @ [[(''type'', JStr ''complete''), (''fullResponse'', JStr (fullResponse s)),
                                    (''timestamp'', JStr (nowISO env))]],
             ended := True\<rparr>)"

text \<open>
  The route answers a request without message or userId with a 400 JSON body; otherwise
  it writes the event-stream head and streams. The result is the status, the JSON body of
  the 400 (if any), the frames written, and the new state.
\<close>

definition chat_stream ::
  "ai_env \<Rightarrow> string option \<Rightarrow> string option \<Rightarrow> string option \<Rightarrow> http_state
     \<Rightarrow> (nat \<times> obj \<times> obj list) \<times> http_state" where
  "chat_stream env message userId conversationId st =
     (case (message, userId) of
        (Some msg, Some uid) \<Rightarrow>
          if msg = [] \<or> uid = []
          then ((400, [(''error'', JStr ''Message and userId are required''), (''success'', JBool False)], []), st)
          else
            (let key = contextKey uid conversationId;
                 context = get_context (conversations st) key;
                 (s, calls1) = streamResponse env msg context (stream_callback env key msg context)
                                 \<lparr>fullResponse = [], store = conversations st, frames = [], ended = False\<rparr>
                                 (ai_calls st)
             in ((200, [], frames s), st\<lparr>conversations := store s, ai_calls := calls1\<rparr>))
      | _ \<Rightarrow>
          ((400, [(''error'', JStr ''Message and userId are required''), (''success'', JBool False)], []), st))"

text \<open>
  A callback that only records its calls, to read off what \<open>streamResponse\<close> emits;
  and the contents a stream's chunks carry (\<open>chunk.choices[0]?.delta?.content || ''\<close>,
  the empty ones skipped).
\<close>

definition record_callback :: "string \<Rightarrow> bool \<Rightarrow> (string \<times> bool) list \<Rightarrow> (string \<times> bool) list" where
  "record_callback chunk isComplete trace = trace @ [(chunk, isComplete)]"

definition contents :: "string option list \<Rightarrow> string list" where
  "contents chs = filter (\<lambda>s. s \<noteq> []) (map (\<lambda>c. case c of None \<Rightarrow> [] | Some s \<Rightarrow> s) chs)"

definition chunk_frame :: "ai_env \<Rightarrow> string \<Rightarrow> obj" where
  "chunk_frame env chunk =
     [(''type'', JStr ''chunk''), (''content'', JStr chunk), (''timestamp'', JStr (nowISO env))]"

definition complete_frame :: "ai_env \<Rightarrow> string \<Rightarrow> obj" where
  "complete_frame env text =
     [(''type'', JStr ''complete''), (''fullResponse'', JStr text), (''timestamp'', JStr (nowISO env))]"

section \<open>The voice route (routes/voice.js, POST /process)\<close>

text \<open>\<open>detectCommandType\<close> of routes/voice.js: the first rule that matches.\<close>

definition detectCommandType :: "string \<Rightarrow> string" where
  "detectCommandType transcript =
     (let t = toLowerCase transcript
      in if str_includes t ''book'' \<and> (str_includes t ''ticket'' \<or> str_includes t ''flight''
                                       \<or> str_includes t ''train'' \<or> str_includes t ''bus'')
         then ''booking''
         else if str_includes t ''emergency'' \<or> str_includes t ''help'' \<or> str_includes t ''urgent''
         then ''emergency''
         else if str_includes t ''weather'' \<or> str_includes t ''news'' \<or> str_includes t ''search''
         then ''information''
         else if str_includes t ''remind'' \<or> str_includes t ''schedule'' \<or> str_includes t ''calendar''
         then ''reminder''
         else if str_includes t ''call'' \<or> str_includes t ''message'' \<or> str_includes t ''contact''
         then ''communication''
         else ''general'')"

text \<open>
  The confidence of a request is absent or a number. \<open>confidence && confidence < 0.7\<close>
  is truthy when the number is not zero and below 0.7; \<open>confidence || 1.0\<close> replaces an
  absent or zero confidence by 1.
\<close>

definition low_confidence :: "real option \<Rightarrow> bool" where
  "low_confidence confidence =
     (case confidence of None \<Rightarrow> False | Some c \<Rightarrow> c \<noteq> 0 \<and> c < 7 / 10)"

definition confidence_or_one :: "real option \<Rightarrow> jsval" where
  "confidence_or_one confidence =
     (case confidence of None \<Rightarrow> JNum 1 | Some c \<Rightarrow> if c \<noteq> 0 then JNum c else JNum 1)"

definition confidence_value :: "real option \<Rightarrow> jsval" where
  "confidence_value confidence = (case confidence of None \<Rightarrow> JUndefined | Some c \<Rightarrow> JNum c)"

definition voice_process ::
  "ai_env \<Rightarrow> string option \<Rightarrow> string option \<Rightarrow> string option \<Rightarrow> string option \<Rightarrow> real option
     \<Rightarrow> http_state \<Rightarrow> http_response \<times> http_state" where
  "voice_process env transcript userId sessionId language confidence st =
     (case (transcript, userId) of
        (Some tr, Some uid) \<Rightarrow>
          if tr = [] \<or> uid = []
          then (\<lparr>status = 400,
                 body = [(''error'', JStr ''Transcript and userId are required''), (''success'', JBool False)]\<rparr>, st)
          else if low_confidence confidence
          then (\<lparr>status = 200,
                 body = [(''success'', JBool True),
                         (''response'', JStr ''I didn't quite catch that. Could you please repeat?''),
                         (''confidence'', confidence_value confidence),
                         (''timestamp'', JStr (nowISO env)),
                         (''requiresRepeat'', JBool True)]\<rparr>, st)
          else
            (let key = contextKey uid sessionId;
                 context = get_context (voiceSessions st) key
             in case processMessage env tr context False (ai_calls st) of
                  (Inr result, calls1) \<Rightarrow>
                    (\<lparr>status = 200,
                      body = [(''success'', JBool True),
                              (''response'', get_prop result ''response''),
                              (''source'', get_prop result ''source''),
                              (''model'', get_prop result ''model''),
                              (''timestamp'', get_prop result ''timestamp''),
                              (''commandType'', JStr (detectCommandType tr)),
                              (''sessionId'', JStr (or_default sessionId)),
                              (''language'', JStr (case language of None \<Rightarrow> ''en'' | Some l \<Rightarrow> l)),
                              (''confidence'', confidence_or_one confidence),
                              (''shouldSpeak'', JBool True)]\<rparr>,
                     st\<lparr>voiceSessions :=
                          remember (voiceSessions st) key (voice_user_turn tr)
                            (voice_assistant_turn (get_prop result ''response'')),
                        ai_calls := calls1\<rparr>)
                | (Inl error, calls1) \<Rightarrow>
                    (\<lparr>status = 500,
                      body = [(''error'', JStr ''Failed to process voice input''), (''success'', JBool False),
                              (''details'', if development env then JStr (message_of error) else JUndefined)]\<rparr>,
                     st\<lparr>ai_calls := calls1\<rparr>))
      | _ \<Rightarrow>
          (\<lparr>status = 400,
            body = [(''error'', JStr ''Transcript and userId are required''), (''success'', JBool False)]\<rparr>, st))"

section \<open>The socket voice handler (utils/socketHandler.js, handleVoiceCommand)\<close>

text \<open>
  The handler's state: \<open>activeUsers\<close> (socket id to the user's record), its own
  \<open>voiceSessions\<close> map, the events emitted so far (socket id, event name, payload), and
  the log of outside calls.
\<close>

record socket_state =
  activeUsers :: "string \<rightharpoonup> obj"
  sessions :: contexts
  emitted :: "(string \<times> string \<times> obj) list"
  outside :: call_log

text \<open>\<open>detectCommandType\<close> of the socket handler has four classes.\<close>

definition socket_detectCommandType :: "string \<Rightarrow> string" where
  "socket_detectCommandType transcript =
     (let t = toLowerCase transcript
      in if str_includes t ''book'' \<and> (str_includes t ''ticket'' \<or> str_includes t ''flight''
                                       \<or> str_includes t ''train'' \<or> str_includes t ''bus'')
         then ''booking''
         else if str_includes t ''emergency'' \<or> str_includes t ''help'' \<or> str_includes t ''urgent''
         then ''emergency''
         else if str_includes t ''weather'' \<or> str_includes t ''news'' \<or> str_includes t ''search''
         then ''information''
         else ''general'')"

text \<open>\<open>!userInfo || userInfo.userId !== userId\<close>\<close>

definition unauthorized :: "socket_state \<Rightarrow> string \<Rightarrow> string \<Rightarrow> bool" where
  "unauthorized st socket_id userId =
     (case activeUsers st socket_id of
        None \<Rightarrow> True
      | Some userInfo \<Rightarrow> \<not> strict_eq (get_prop userInfo ''userId'') (JStr userId))"

text \<open>\<open>userInfo.lastActivity = new Date().toISOString()\<close>\<close>

definition touch :: "ai_env \<Rightarrow> socket_state \<Rightarrow> string \<Rightarrow> socket_state" where
  "touch env st socket_id =
     (case activeUsers st socket_id of
        None \<Rightarrow> st
      | Some userInfo \<Rightarrow>
          st\<lparr>activeUsers := (activeUsers st)(socket_id \<mapsto>
                AList.update ''lastActivity'' (JStr (nowISO env)) userInfo)\<rparr>)"

definition emit :: "string \<Rightarrow> string \<Rightarrow> obj \<Rightarrow> socket_state \<Rightarrow> socket_state" where
  "emit socket_id event payload st = st\<lparr>emitted := emitted st @ [(socket_id, event, payload)]\<rparr>"

definition handleVoiceCommand ::
  "ai_env \<Rightarrow> string \<Rightarrow> string \<Rightarrow> string \<Rightarrow> string option \<Rightarrow> real option \<Rightarrow> string option
     \<Rightarrow> socket_state \<Rightarrow> socket_state" where
  "handleVoiceCommand env socket_id transcript userId sessionId confidence language st =
     (if unauthorized st socket_id userId
      then emit socket_id ''voice-error'' [(''error'', JStr ''Unauthorized or invalid session'')] st
      else
        (let st1 = touch env st socket_id
         in if low_confidence confidence
            then emit socket_id ''voice-response''
                   [(''response'', JStr ''I didn't quite catch that. Could you please repeat?''),
                    (''confidence'', confidence_value confidence),
                    (''timestamp'', JStr (nowISO env)),
                    (''requiresRepeat'', JBool True),
                    (''shouldSpeak'', JBool True)] st1
            else
              (let key = contextKey userId sessionId;
                   context = get_context (sessions st1) key
               in case processMessage env transcript context False (outside st1) of
                    (Inr result, calls1) \<Rightarrow>
                      (let st2 = st1\<lparr>sessions :=
                                        remember (sessions st1) key (voice_user_turn transcript)
                                          (voice_assistant_turn (get_prop result ''response'')),
                                      outside := calls1\<rparr>;
                           commandType = socket_detectCommandType transcript;
                           st3 = emit socket_id ''voice-response''
                                   [(''response'', get_prop result ''response''),
                                    (''source'', get_prop result ''source''),
                                    (''model'', get_prop result ''model''),
                                    (''timestamp'', get_prop result ''timestamp''),
                                    (''commandType'', JStr commandType),
                                    (''confidence'', confidence_or_one confidence),
                                    (''shouldSpeak'', JBool True),
                                    (''language'', JStr (case language of None \<Rightarrow> ''en'' | Some l \<Rightarrow> l))] st2
                       in if commandType = ''booking''
                          then emit socket_id ''voice-booking-detected''
                                 [(''message'', JStr ''I detected a booking request. Let me help you with that.''),
                                  (''transcript'', JStr transcript),
                                  (''timestamp'', JStr (nowISO env)),
                                  (''nextAction'', JStr ''show_booking_form'')] st3
                          else if commandType = ''emergency''
                          then emit socket_id ''voice-emergency-detected''
                                 [(''message'', JStr ''Emergency command detected. Activating emergency protocols.''),
                                  (''transcript'', JStr transcript),
                                  (''timestamp'', JStr (nowISO env)),
                                  (''priority'', JStr ''critical'')] st3
                          else st3)
                  | (Inl error, calls1) \<Rightarrow>
                      emit socket_id ''voice-error''
                        [(''error'', JStr ''Failed to process voice command''),
                         (''timestamp'', JStr (nowISO env))] (st1\<lparr>outside := calls1\<rparr>))))"

section \<open>Booking validation (models/BookingModel.js)\<close>

text \<open>
  The built-ins of the runtime that the model takes as given: the time value
  \<open>new Date(v).getTime()\<close> of a value (\<open>None\<close> for an invalid date), the current time
  value, the offset of local time from UTC in milliseconds as the rules of the time zone
  give it (ECMAScript's \<open>LocalTZA(t, isUTC)\<close>: for a UTC time value when \<open>isUTC\<close>, for a
  local time value otherwise), \<open>parseInt\<close>, the numeric value a comparison gives a non-number (\<open>None\<close> for
  \<open>NaN\<close>), and the text a template literal gives a non-string.
\<close>

record js_runtime =
  Date_parse :: "jsval \<Rightarrow> int option"
  now_ms :: int
  LocalTZA :: "int \<Rightarrow> bool \<Rightarrow> int"
  parseInt :: "jsval \<Rightarrow> jsval"
  toNumber :: "jsval \<Rightarrow> real option"
  toString_other :: "jsval \<Rightarrow> string"

definition js_to_string :: "js_runtime \<Rightarrow> jsval \<Rightarrow> string" where
  "js_to_string rt v = (case v of JStr s \<Rightarrow> s | _ \<Rightarrow> toString_other rt v)"

definition num_of :: "js_runtime \<Rightarrow> jsval \<Rightarrow> real option" where
  "num_of rt v = (case v of JNum x \<Rightarrow> Some x | JNaN \<Rightarrow> None | _ \<Rightarrow> toNumber rt v)"

text \<open>Sequencing of steps that can throw: the first throw ends the evaluation.\<close>

definition and_then :: "js_error + 'a \<Rightarrow> ('a \<Rightarrow> js_error + 'b) \<Rightarrow> js_error + 'b" where
  "and_then r f = (case r of Inl e \<Rightarrow> Inl e | Inr v \<Rightarrow> f v)"

text \<open>
  \<open>v.trim()\<close> and \<open>v.toLowerCase()\<close> on the value of an expression: a string has the
  method; \<open>undefined\<close> and \<open>null\<close> have no properties; on anything else the property
  is not a function. Each failure is a \<open>TypeError\<close>; its message is the engine's.
\<close>

definition call_string_method ::
  "string \<Rightarrow> string \<Rightarrow> (string \<Rightarrow> string) \<Rightarrow> jsval \<Rightarrow> js_error + string" where
  "call_string_method expr name f v =
     (case v of
        JStr s \<Rightarrow> Inr (f s)
      | JUndefined \<Rightarrow>
          Inl (Error (''Cannot read properties of undefined (reading '' @ [CHR 0x27] @ name @ [CHR 0x27] @ '')''))
      | JNull \<Rightarrow>
          Inl (Error (''Cannot read properties of null (reading '' @ [CHR 0x27] @ name @ [CHR 0x27] @ '')''))
      | _ \<Rightarrow> Inl (Error (expr @ ''.'' @ name @ '' is not a function'')))"

definition js_trim :: "string \<Rightarrow> jsval \<Rightarrow> js_error + string" where
  "js_trim expr v = call_string_method expr ''trim'' trim v"

definition js_toLowerCase :: "string \<Rightarrow> jsval \<Rightarrow> js_error + string" where
  "js_toLowerCase expr v = call_string_method expr ''toLowerCase'' toLowerCase v"

text \<open>\<open>checkRequiredFields\<close>: the first field of the list whose value is falsy throws.\<close>

fun checkRequiredFields :: "obj \<Rightarrow> string list \<Rightarrow> js_error + unit" where
  "checkRequiredFields data [] = Inr ()"
| "checkRequiredFields data (field # rest) =
     (if \<not> truthy (get_prop data field) then Inl (Error (''Missing required field: '' @ field))
      else checkRequiredFields data rest)"

text \<open>
  Dates. A time value is a number of milliseconds since the epoch. The calendar date of
  a time value in UTC, as \<open>toISOString\<close> prints it before the \<open>T\<close>: four digits of
  year for the years 0 to 9999 and a sign with six digits otherwise, two digits of
  month, two of day.
\<close>

definition ms_per_day :: int where
  "ms_per_day = 86400000"

definition civil_from_days :: "int \<Rightarrow> int \<times> int \<times> int" where
  "civil_from_days z0 =
     (let z = z0 + 719468;
          era = z div 146097;
          doe = z mod 146097;
          yoe = (doe - doe div 1460 + doe div 36524 - doe div 146096) div 365;
          y = yoe + era * 400;
          doy = doe - (365 * yoe + yoe div 4 - yoe div 100);
          mp = (5 * doy + 2) div 153;
          d = doy - (153 * mp + 2) div 5 + 1;
          m = (if mp < 10 then mp + 3 else mp - 9)
      in (if m \<le> 2 then y + 1 else y, m, d))"

definition digit_char :: "nat \<Rightarrow> char" where
  "digit_char n = char_of (48 + n mod 10)"

text \<open>The digit of a number at a power of ten, and the last two, four and six digits.\<close>

definition digit_at :: "int \<Rightarrow> int \<Rightarrow> char" where
  "digit_at p n = digit_char (nat (n div p mod 10))"

definition pad2 :: "int \<Rightarrow> string" where
  "pad2 n = [digit_at 10 n, digit_at 1 n]"

definition pad4 :: "int \<Rightarrow> string" where
  "pad4 n = [digit_at 1000 n, digit_at 100 n, digit_at 10 n, digit_at 1 n]"

definition pad6 :: "int \<Rightarrow> string" where
  "pad6 n = [digit_at 100000 n, digit_at 10000 n, digit_at 1000 n,
             digit_at 100 n, digit_at 10 n, digit_at 1 n]"

text \<open>
  The year as \<open>toISOString\<close> prints it: four digits from 0 to 9999, else a sign and six
  digits.
\<close>

definition iso_year :: "int \<Rightarrow> string" where
  "iso_year y =
     (if 0 \<le> y \<and> y \<le> 9999 then pad4 y
      else if y < 0 then ''-'' @ pad6 (- y)
      else ''+'' @ pad6 y)"

text \<open>\<open>date.toISOString().split('T')[0]\<close>\<close>

definition iso_date :: "int \<Rightarrow> string" where
  "iso_date t =
     (case civil_from_days (t div ms_per_day) of
        (y, m, d) \<Rightarrow> iso_year y @ ''-'' @ pad2 m @ ''-'' @ pad2 d)"

text \<open>
  ECMAScript's \<open>LocalTime(t)\<close> and \<open>UTC(t)\<close>, and \<open>today.setHours(0, 0, 0, 0)\<close> on
  \<open>today = new Date()\<close>: the local time of now, cut down to the start of its day
  (\<open>MakeDate(Day(LocalTime(now)), MakeTime(0, 0, 0, 0))\<close>) and taken back to UTC with
  the offset in force at that local midnight.
\<close>

definition LocalTime :: "js_runtime \<Rightarrow> int \<Rightarrow> int" where
  "LocalTime rt t = t + LocalTZA rt t True"

definition UTC :: "js_runtime \<Rightarrow> int \<Rightarrow> int" where
  "UTC rt t = t - LocalTZA rt t False"

definition start_of_today :: "js_runtime \<Rightarrow> int" where
  "start_of_today rt = UTC rt (LocalTime rt (now_ms rt) div ms_per_day * ms_per_day)"

definition validateDate :: "js_runtime \<Rightarrow> jsval \<Rightarrow> js_error + string" where
  "validateDate rt dateString =
     (case Date_parse rt dateString of
        None \<Rightarrow> Inl (Error (''Invalid date format: '' @ js_to_string rt dateString))
      | Some date \<Rightarrow>
          if date < start_of_today rt then Inl (Error ''Booking date cannot be in the past'')
          else Inr (iso_date date))"

text \<open>Passengers.\<close>

definition getPassengerType :: "js_runtime \<Rightarrow> jsval \<Rightarrow> string" where
  "getPassengerType rt age =
     (case num_of rt age of
        None \<Rightarrow> ''adult''
      | Some a \<Rightarrow> if a < 2 then ''infant'' else if a < 12 then ''child''
                  else if a \<ge> 60 then ''senior'' else ''adult'')"

definition validatePassenger :: "js_runtime \<Rightarrow> jsval \<Rightarrow> js_error + jsval" where
  "validatePassenger rt passenger =
     (case passenger of
        JUndefined \<Rightarrow> Inl (Error ''Cannot read properties of undefined (reading 'name')'')
      | JNull \<Rightarrow> Inl (Error ''Cannot read properties of null (reading 'name')'')
      | JObj p \<Rightarrow>
          if \<not> truthy (get_prop p ''name'') \<or> \<not> truthy (get_prop p ''age'')
          then Inl (Error ''Each passenger must have name and age'')
          else and_then (js_trim ''passenger.name'' (get_prop p ''name'')) (\<lambda>name.
                 Inr (JObj [(''name'', JStr name),
                            (''age'', parseInt rt (get_prop p ''age'')),
                            (''type'', JStr (getPassengerType rt (get_prop p ''age''))),
                            (''id'', js_or (get_prop p ''id'') JNull)]))
      | _ \<Rightarrow> Inl (Error ''Each passenger must have name and age''))"

fun map_throwing :: "('a \<Rightarrow> js_error + 'b) \<Rightarrow> 'a list \<Rightarrow> js_error + 'b list" where
  "map_throwing f [] = Inr []"
| "map_throwing f (x # xs) =
     and_then (f x) (\<lambda>y. and_then (map_throwing f xs) (\<lambda>ys. Inr (y # ys)))"

definition validatePassengers :: "js_runtime \<Rightarrow> jsval \<Rightarrow> js_error + jsval" where
  "validatePassengers rt passengers =
     (case passengers of
        JArr ps \<Rightarrow>
          if ps = [] then Inl (Error ''At least one passenger is required'')
          else and_then (map_throwing (validatePassenger rt) ps) (\<lambda>vs. Inr (JArr vs))
      | _ \<Rightarrow> Inl (Error ''At least one passenger is required''))"

text \<open>Classes.\<close>

definition validateTrainClass :: "js_runtime \<Rightarrow> jsval \<Rightarrow> js_error + string" where
  "validateTrainClass rt trainClass =
     and_then (js_toLowerCase ''trainClass'' trainClass) (\<lambda>lower.
       if lower \<notin> set [''sleeper'', ''3ac'', ''2ac'', ''1ac'', ''cc'', ''ec'']
       then Inl (Error (''Invalid train class: '' @ js_to_string rt trainClass))
       else Inr lower)"

definition validateFlightClass :: "js_runtime \<Rightarrow> jsval \<Rightarrow> js_error + string" where
  "validateFlightClass rt flightClass =
     and_then (js_toLowerCase ''flightClass'' flightClass) (\<lambda>lower.
       if lower \<notin> set [''economy'', ''premium-economy'', ''business'', ''first'']
       then Inl (Error (''Invalid flight class: '' @ js_to_string rt flightClass))
       else Inr lower)"

text \<open>Prices and durations. \<open>Math.round(x)\<close> is \<open>\<lfloor>x + 1/2\<rfloor>\<close>.\<close>

definition math_round :: "real \<Rightarrow> int" where
  "math_round x = \<lfloor>x + 1 / 2\<rfloor>"

definition distances :: "(string \<times> real) list" where
  "distances =
     [(''delhi-mumbai'', 15 / 10), (''mumbai-delhi'', 15 / 10),
      (''delhi-bangalore'', 2), (''bangalore-delhi'', 2),
      (''mumbai-bangalore'', 12 / 10), (''bangalore-mumbai'', 12 / 10),
      (''delhi-kolkata'', 18 / 10), (''kolkata-delhi'', 18 / 10),
      (''mumbai-kolkata'', 22 / 10), (''kolkata-mumbai'', 22 / 10),
      (''bangalore-kolkata'', 25 / 10), (''kolkata-bangalore'', 25 / 10)]"

definition getDistanceMultiplier :: "jsval \<Rightarrow> jsval \<Rightarrow> js_error + real" where
  "getDistanceMultiplier origin dest =
     and_then (js_toLowerCase ''from'' origin) (\<lambda>a.
     and_then (js_toLowerCase ''to'' dest) (\<lambda>b.
       Inr (case map_of distances (a @ ''-'' @ b) of None \<Rightarrow> 1 | Some m \<Rightarrow> m)))"

text \<open>
  \<open>data.passengers.length\<close>: an array or a string has a length; \<open>undefined\<close> and
  \<open>null\<close> have no properties; any other value has no such property, the product is then
  \<open>NaN\<close> and so is its rounding.
\<close>

definition passenger_count :: "jsval \<Rightarrow> js_error + real option" where
  "passenger_count passengers =
     (case passengers of
        JArr ps \<Rightarrow> Inr (Some (real (length ps)))
      | JStr s \<Rightarrow> Inr (Some (real (length s)))
      | JUndefined \<Rightarrow> Inl (Error ''Cannot read properties of undefined (reading 'length')'')
      | JNull \<Rightarrow> Inl (Error ''Cannot read properties of null (reading 'length')'')
      | _ \<Rightarrow> Inr None)"

definition rounded :: "real option \<Rightarrow> jsval" where
  "rounded x = (case x of None \<Rightarrow> JNaN | Some v \<Rightarrow> JNum (real_of_int (math_round v)))"

definition calculateBusPrice :: "obj \<Rightarrow> js_error + jsval" where
  "calculateBusPrice data =
     and_then (getDistanceMultiplier (get_prop data ''from'') (get_prop data ''to'')) (\<lambda>distanceMultiplier.
     and_then (passenger_count (get_prop data ''passengers'')) (\<lambda>passengerCount.
       Inr (rounded (map_option (\<lambda>n. 500 * distanceMultiplier * n *
              (if strict_eq (get_prop data ''seatType'') (JStr ''premium'') then 15 / 10 else 1))
              passengerCount))))"

definition trainBasePrices :: "(string \<times> real) list" where
  "trainBasePrices =
     [(''sleeper'', 300), (''3ac'', 800), (''2ac'', 1200), (''1ac'', 2000), (''cc'', 600), (''ec'', 400)]"

definition flightBasePrices :: "(string \<times> real) list" where
  "flightBasePrices =
     [(''economy'', 5000), (''premium-economy'', 8000), (''business'', 15000), (''first'', 25000)]"

text \<open>\<open>basePrices[data.class] || d\<close>: the table is read with the class as the request wrote it.\<close>

definition base_price :: "(string \<times> real) list \<Rightarrow> real \<Rightarrow> jsval \<Rightarrow> real" where
  "base_price table d cls =
     (case cls of
        JStr c \<Rightarrow> (case map_of table c of None \<Rightarrow> d | Some p \<Rightarrow> p)
      | _ \<Rightarrow> d)"

definition calculateTrainPrice :: "obj \<Rightarrow> js_error + jsval" where
  "calculateTrainPrice data =
     and_then (getDistanceMultiplier (get_prop data ''from'') (get_prop data ''to'')) (\<lambda>distanceMultiplier.
     and_then (passenger_count (get_prop data ''passengers'')) (\<lambda>passengerCount.
       Inr (rounded (map_option (\<lambda>n. base_price trainBasePrices 500 (get_prop data ''class'')
                          * distanceMultiplier * n) passengerCount))))"

definition calculateFlightPrice :: "obj \<Rightarrow> js_error + jsval" where
  "calculateFlightPrice data =
     and_then (getDistanceMultiplier (get_prop data ''from'') (get_prop data ''to'')) (\<lambda>distanceMultiplier.
     and_then (passenger_count (get_prop data ''passengers'')) (\<lambda>passengerCount.
       Inr (rounded (map_option (\<lambda>n. base_price flightBasePrices 5000 (get_prop data ''class'')
                          * distanceMultiplier * n
                          * (if truthy (get_prop data ''returnDate'') then 18 / 10 else 1))
                          passengerCount))))"

text \<open>The decimal digits of a count of hours or minutes.\<close>

fun show_nat :: "nat \<Rightarrow> string" where
  "show_nat n = (if n < 10 then [digit_char n] else show_nat (n div 10) @ [digit_char n])"

declare show_nat.simps [simp del]

definition show_int :: "int \<Rightarrow> string" where
  "show_int i = (if i < 0 then ''-'' @ show_nat (nat (- i)) else show_nat (nat i))"

definition estimateBusDuration :: "jsval \<Rightarrow> jsval \<Rightarrow> js_error + string" where
  "estimateBusDuration origin dest =
     and_then (getDistanceMultiplier origin dest) (\<lambda>m.
       Inr (show_int (math_round (m * 8)) @ '' hours''))"

definition estimateTrainDuration :: "jsval \<Rightarrow> jsval \<Rightarrow> jsval \<Rightarrow> js_error + string" where
  "estimateTrainDuration origin dest trainType =
     and_then (getDistanceMultiplier origin dest) (\<lambda>m.
       Inr (show_int (math_round (m * 6 * (if strict_eq trainType (JStr ''express'') then 8 / 10 else 1)))
            @ '' hours''))"

definition estimateFlightDuration :: "jsval \<Rightarrow> jsval \<Rightarrow> js_error + string" where
  "estimateFlightDuration origin dest =
     and_then (getDistanceMultiplier origin dest) (\<lambda>m.
       Inr (show_int (math_round (m * (15 / 10) * 60)) @ '' minutes''))"

text \<open>
  The three validators. The fields of the returned object are evaluated in the order
  the object literal lists them, so the first that throws decides the error.
\<close>

definition validateBusBooking :: "js_runtime \<Rightarrow> obj \<Rightarrow> js_error + obj" where
  "validateBusBooking rt data =
     and_then (checkRequiredFields data [''from'', ''to'', ''date'', ''time'', ''passengers'']) (\<lambda>_.
     and_then (js_trim ''data.from'' (get_prop data ''from'')) (\<lambda>origin.
     and_then (js_trim ''data.to'' (get_prop data ''to'')) (\<lambda>dest.
     and_then (validateDate rt (get_prop data ''date'')) (\<lambda>date.
     and_then (js_trim ''data.time'' (get_prop data ''time'')) (\<lambda>time.
     and_then (validatePassengers rt (get_prop data ''passengers'')) (\<lambda>passengers.
     and_then (calculateBusPrice data) (\<lambda>estimatedPrice.
     and_then (estimateBusDuration (get_prop data ''from'') (get_prop data ''to'')) (\<lambda>duration.
       Inr [(''type'', JStr ''bus''),
            (''from'', JStr origin),
            (''to'', JStr dest),
            (''date'', JStr date),
            (''time'', JStr time),
            (''passengers'', passengers),
            (''seatType'', js_or (get_prop data ''seatType'') (JStr ''standard'')),
            (''operatorPreference'', js_or (get_prop data ''operatorPreference'') (JStr ''any'')),
            (''estimatedPrice'', estimatedPrice),
            (''duration'', JStr duration)]))))))))"

definition validateTrainBooking :: "js_runtime \<Rightarrow> obj \<Rightarrow> js_error + obj" where
  "validateTrainBooking rt data =
     and_then (checkRequiredFields data [''from'', ''to'', ''date'', ''time'', ''passengers'', ''class'']) (\<lambda>_.
     and_then (js_trim ''data.from'' (get_prop data ''from'')) (\<lambda>origin.
     and_then (js_trim ''data.to'' (get_prop data ''to'')) (\<lambda>dest.
     and_then (validateDate rt (get_prop data ''date'')) (\<lambda>date.
     and_then (js_trim ''data.time'' (get_prop data ''time'')) (\<lambda>time.
     and_then (validatePassengers rt (get_prop data ''passengers'')) (\<lambda>passengers.
     and_then (validateTrainClass rt (get_prop data ''class'')) (\<lambda>cls.
     and_then (calculateTrainPrice data) (\<lambda>estimatedPrice.
     and_then (estimateTrainDuration (get_prop data ''from'') (get_prop data ''to'')
                 (get_prop data ''trainType'')) (\<lambda>duration.
       Inr [(''type'', JStr ''train''),
            (''from'', JStr origin),
            (''to'', JStr dest),
            (''date'', JStr date),
            (''time'', JStr time),
            (''passengers'', passengers),
            (''class'', JStr cls),
            (''trainType'', js_or (get_prop data ''trainType'') (JStr ''express'')),
            (''seatPreference'', js_or (get_prop data ''seatPreference'') (JStr ''any'')),
            (''estimatedPrice'', estimatedPrice),
            (''duration'', JStr duration)])))))))))"

definition validateFlightBooking :: "js_runtime \<Rightarrow> obj \<Rightarrow> js_error + obj" where
  "validateFlightBooking rt data =
     and_then (checkRequiredFields data [''from'', ''to'', ''departureDate'', ''passengers'', ''class'']) (\<lambda>_.
     and_then (js_trim ''data.from'' (get_prop data ''from'')) (\<lambda>origin.
     and_then (js_trim ''data.to'' (get_prop data ''to'')) (\<lambda>dest.
     and_then (validateDate rt (get_prop data ''departureDate'')) (\<lambda>departureDate.
     and_then (if truthy (get_prop data ''returnDate'')
               then and_then (validateDate rt (get_prop data ''returnDate'')) (\<lambda>d. Inr (JStr d))
               else Inr JNull) (\<lambda>returnDate.
     and_then (validatePassengers rt (get_prop data ''passengers'')) (\<lambda>passengers.
     and_then (validateFlightClass rt (get_prop data ''class'')) (\<lambda>cls.
     and_then (calculateFlightPrice data) (\<lambda>estimatedPrice.
     and_then (estimateFlightDuration (get_prop data ''from'') (get_prop data ''to'')) (\<lambda>duration.
       Inr [(''type'', JStr ''flight''),
            (''from'', JStr origin),
            (''to'', JStr dest),
            (''departureDate'', JStr departureDate),
            (''returnDate'', returnDate),
            (''passengers'', passengers),
            (''class'', JStr cls),
            (''airlinePreference'', js_or (get_prop data ''airlinePreference'') (JStr ''any'')),
            (''mealPreference'', js_or (get_prop data ''mealPreference'') (JStr ''standard'')),
            (''tripType'', JStr (if truthy (get_prop data ''returnDate'') then ''round-trip'' else ''one-way'')),
            (''estimatedPrice'', estimatedPrice),
            (''duration'', JStr duration)])))))))))"

text \<open>
  \<open>validateBooking\<close>: \<open>const { type, ...data } = bookingData\<close>, the type must be one of
  the three, and the validator of the type gets the rest.
\<close>

definition validateBooking :: "js_runtime \<Rightarrow> obj \<Rightarrow> js_error + obj" where
  "validateBooking rt bookingData =
     (let type = get_prop bookingData ''type'';
          data = AList.delete ''type'' bookingData
      in if \<not> (strict_eq type (JStr ''bus'') \<or> strict_eq type (JStr ''train'')
                \<or> strict_eq type (JStr ''flight''))
         then Inl (Error (''Invalid booking type: '' @ js_to_string rt type))
         else if strict_eq type (JStr ''bus'') then validateBusBooking rt data
         else if strict_eq type (JStr ''train'') then validateTrainBooking rt data
         else if strict_eq type (JStr ''flight'') then validateFlightBooking rt data
         else Inl (Error (''Unsupported booking type: '' @ js_to_string rt type)))"

text \<open>The required-field list of each type, as the three validators write it.\<close>

definition required_fields :: "string \<Rightarrow> string list" where
  "required_fields t =
     (if t = ''bus'' then [''from'', ''to'', ''date'', ''time'', ''passengers'']
      else if t = ''train'' then [''from'', ''to'', ''date'', ''time'', ''passengers'', ''class'']
      else if t = ''flight'' then [''from'', ''to'', ''departureDate'', ''passengers'', ''class'']
      else [])"

text \<open>The field that carries the travel date of each type.\<close>

definition date_field :: "string \<Rightarrow> string" where
  "date_field t = (if t = ''flight'' then ''departureDate'' else ''date'')"

text \<open>An error that reports a missing required field.\<close>

definition missing_field_error :: "js_error \<Rightarrow> bool" where
  "missing_field_error e = startsWith (message_of e) ''Missing required field: ''"

text \<open>The shape \<open>YYYY-MM-DD\<close>: ten characters, digits around two hyphens.\<close>

definition is_digit :: "char \<Rightarrow> bool" where
  "is_digit c = (48 \<le> (of_char c :: nat) \<and> (of_char c :: nat) \<le> 57)"

definition is_YYYY_MM_DD :: "string \<Rightarrow> bool" where
  "is_YYYY_MM_DD s =
     (case s of
        [a, b, c, d, e, f, g, h, i, j] \<Rightarrow>
          is_digit a \<and> is_digit b \<and> is_digit c \<and> is_digit d \<and> e = CHR ''-'' \<and>
          is_digit f \<and> is_digit g \<and> h = CHR ''-'' \<and> is_digit i \<and> is_digit j
      | _ \<Rightarrow> False)"

definition utc_year :: "int \<Rightarrow> int" where
  "utc_year t = fst (civil_from_days (t div ms_per_day))"

section \<open>The storage gateway (utils/mongoStorage.js, utils/jsonStorage.js)\<close>

text \<open>
  What \<open>JSON.stringify\<close> followed by \<open>JSON.parse\<close> makes of a value: a property whose
  value is \<open>undefined\<close> is dropped, \<open>undefined\<close> in an array and \<open>NaN\<close> become \<open>null\<close>.
\<close>

fun jsonify :: "jsval \<Rightarrow> jsval" where
  "jsonify (JObj ps) = JObj (map (\<lambda>p. (fst p, jsonify (snd p))) (filter (\<lambda>p. snd p \<noteq> JUndefined) ps))"
| "jsonify (JArr vs) = JArr (map jsonify vs)"
| "jsonify JUndefined = JNull"
| "jsonify JNaN = JNull"
| "jsonify v = v"

definition jsonify_obj :: "obj \<Rightarrow> obj" where
  "jsonify_obj ob = map (\<lambda>p. (fst p, jsonify (snd p))) (filter (\<lambda>p. snd p \<noteq> JUndefined) ob)"

text \<open>
  The state of the gateway: the cached connectivity flag of the durable backend, the
  parsed content of \<open>bookings.json\<close> (\<open>None\<close> when the file cannot be read or parsed)
  and whether \<open>fs.writeFile\<close> succeeds.
\<close>

record storage =
  isConnected :: bool
  bookingsFile :: "obj list option"
  writable :: bool

text \<open>
  The durable backend's driver is outside the repository: saving a document and
  \<open>findOneAndUpdate\<close> either throw or answer (a document, or \<open>null\<close> when none matches).
\<close>

record mongo_driver =
  Booking_save :: "obj \<Rightarrow> js_error + obj"
  Booking_findOneAndUpdate :: "jsval \<Rightarrow> obj \<Rightarrow> js_error + obj option"

text \<open>\<open>readFile\<close> returns \<open>null\<close> on any error; \<open>await this.readFile(file) || []\<close>.\<close>

definition read_bookings :: "storage \<Rightarrow> obj list" where
  "read_bookings st = (case bookingsFile st of None \<Rightarrow> [] | Some bookings \<Rightarrow> bookings)"

text \<open>\<open>writeFile\<close> stringifies and writes; it returns whether the write succeeded.\<close>

definition writeFile :: "storage \<Rightarrow> obj list \<Rightarrow> bool \<times> storage" where
  "writeFile st data =
     (if writable st then (True, st\<lparr>bookingsFile := Some (map jsonify_obj data)\<rparr>) else (False, st))"

text \<open>The flat-file operations.\<close>

definition json_saveBooking :: "storage \<Rightarrow> obj \<Rightarrow> obj option \<times> storage" where
  "json_saveBooking st booking =
     (let bookings = read_bookings st @ [booking];
          (success, st1) = writeFile st bookings
      in (if success then Some booking else None, st1))"

text \<open>\<open>bookings.findIndex(p)\<close>, \<open>None\<close> for \<open>-1\<close>.\<close>

fun findIndex :: "('a \<Rightarrow> bool) \<Rightarrow> 'a list \<Rightarrow> nat option" where
  "findIndex p [] = None"
| "findIndex p (x # xs) = (if p x then Some 0 else map_option Suc (findIndex p xs))"

definition has_id :: "jsval \<Rightarrow> obj \<Rightarrow> bool" where
  "has_id bookingId booking = strict_eq (get_prop booking ''bookingId'') bookingId"

text \<open>\<open>{...bookings[bookingIndex], ...updates, updatedAt: new Date().toISOString()}\<close>\<close>

definition merged_booking :: "string \<Rightarrow> obj \<Rightarrow> obj \<Rightarrow> obj" where
  "merged_booking now booking updates = spread (spread booking updates) [(''updatedAt'', JStr now)]"

definition json_updateBooking :: "string \<Rightarrow> storage \<Rightarrow> jsval \<Rightarrow> obj \<Rightarrow> obj option \<times> storage" where
  "json_updateBooking now st bookingId updates =
     (let bookings = read_bookings st
      in case findIndex (has_id bookingId) bookings of
           None \<Rightarrow> (None, st)
         | Some bookingIndex \<Rightarrow>
             (let merged = merged_booking now (bookings ! bookingIndex) updates;
                  (success, st1) = writeFile st (bookings[bookingIndex := merged])
              in (if success then Some merged else None, st1)))"

text \<open>
  \<open>getBooking\<close> of the gateway. The class defines \<open>getBooking\<close> twice; the second
  definition, which reads the flat file, is the one in effect.
\<close>

definition getBooking :: "storage \<Rightarrow> jsval \<Rightarrow> obj option" where
  "getBooking st bookingId = find (has_id bookingId) (read_bookings st)"

text \<open>
  The durable backend's operations. Each throws inside its own \<open>try\<close> when the flag is
  down, catches everything and returns \<open>null\<close>: none of them throws to its caller.
\<close>

definition mongo_saveBooking :: "mongo_driver \<Rightarrow> storage \<Rightarrow> obj \<Rightarrow> obj option" where
  "mongo_saveBooking drv st booking =
     (if \<not> isConnected st then None
      else case Booking_save drv booking of Inl error \<Rightarrow> None | Inr saved \<Rightarrow> Some saved)"

definition mongo_updateBooking ::
  "string \<Rightarrow> mongo_driver \<Rightarrow> storage \<Rightarrow> jsval \<Rightarrow> obj \<Rightarrow> obj option" where
  "mongo_updateBooking now drv st bookingId updates =
     (if \<not> isConnected st then None
      else case Booking_findOneAndUpdate drv bookingId (spread updates [(''updatedAt'', JStr now)]) of
             Inl error \<Rightarrow> None
           | Inr updated \<Rightarrow> updated)"

text \<open>
  \<open>useStorage\<close>: the durable operation when the flag is up, else the flat-file one; in
  the \<open>catch\<close>, the flat-file operation once more if the flag is up, else \<open>null\<close>.
\<close>

definition useStorage ::
  "storage \<Rightarrow> (storage \<Rightarrow> (js_error + 'a) \<times> storage) \<Rightarrow> (storage \<Rightarrow> (js_error + 'a) \<times> storage)
     \<Rightarrow> 'a \<Rightarrow> 'a \<times> storage" where
  "useStorage st mongo_op json_op null =
     (case (if isConnected st then mongo_op st else json_op st) of
        (Inr r, st1) \<Rightarrow> (r, st1)
      | (Inl error, st1) \<Rightarrow>
          if isConnected st1
          then (case json_op st1 of
                  (Inr r, st2) \<Rightarrow> (r, st2)
                | (Inl jsonError, st2) \<Rightarrow> (null, st2))
          else (null, st1))"

definition saveBooking :: "mongo_driver \<Rightarrow> storage \<Rightarrow> obj \<Rightarrow> obj option \<times> storage" where
  "saveBooking drv st booking =
     useStorage st
       (\<lambda>s. (Inr (mongo_saveBooking drv s booking), s))
       (\<lambda>s. case json_saveBooking s booking of (r, s1) \<Rightarrow> (Inr r, s1))
       None"

definition updateBooking ::
  "string \<Rightarrow> mongo_driver \<Rightarrow> storage \<Rightarrow> jsval \<Rightarrow> obj \<Rightarrow> obj option \<times> storage" where
  "updateBooking now drv st bookingId updates =
     useStorage st
       (\<lambda>s. (Inr (mongo_updateBooking now drv s bookingId updates), s))
       (\<lambda>s. case json_updateBooking now s bookingId updates of (r, s1) \<Rightarrow> (Inr r, s1))
       None"

section \<open>Cancellation (routes/booking.js, DELETE /:bookingId)\<close>

text \<open>
  The request carries the booking id of the path and, in its body, \<open>userId\<close> and
  \<open>reason\<close> (\<open>User cancellation\<close> when absent). \<open>now\<close> is the clock as the route
  reads it for \<open>cancelledAt\<close>, \<open>later\<close> as the storage reads it for \<open>updatedAt\<close>.
  \<open>cancellation\<close> is the update the route hands to the storage.
\<close>

definition cancellation :: "string \<Rightarrow> jsval \<Rightarrow> obj" where
  "cancellation now reason =
     [(''status'', JStr ''cancelled''),
      (''cancellationReason'', if reason = JUndefined then JStr ''User cancellation'' else reason),
      (''cancelledAt'', JStr now)]"

definition cancel_booking ::
  "string \<Rightarrow> string \<Rightarrow> mongo_driver \<Rightarrow> storage \<Rightarrow> string \<Rightarrow> jsval \<Rightarrow> jsval
     \<Rightarrow> http_response \<times> storage" where
  "cancel_booking now later drv st bookingId userId reason =
     (case getBooking st (JStr bookingId) of
        None \<Rightarrow>
          (\<lparr>status = 404, body = [(''error'', JStr ''Booking not found''), (''success'', JBool False)]\<rparr>, st)
      | Some existingBooking \<Rightarrow>
          if \<not> strict_eq (get_prop existingBooking ''userId'') userId
          then (\<lparr>status = 403,
                 body = [(''error'', JStr ''Unauthorized to cancel this booking''),
                         (''success'', JBool False)]\<rparr>, st)
          else
            (case updateBooking later drv st (JStr bookingId) (cancellation now reason) of
               (None, st1) \<Rightarrow>
                 (\<lparr>status = 400,
                   body = [(''error'', JStr ''Failed to cancel booking''), (''success'', JBool False)]\<rparr>, st1)
             | (Some cancelledBooking, st1) \<Rightarrow>
                 (\<lparr>status = 200,
                   body = [(''success'', JBool True), (''booking'', JObj cancelledBooking),
                           (''message'', JStr ''Booking cancelled successfully'')]\<rparr>, st1)))"

section \<open>Concrete environments and states\<close>

text \<open>Nothing outside answers: every provider call and every web request throws.\<close>

definition dead_env :: ai_env where
  "dead_env = \<lparr> isDeepSeekAvailable = True, isOpenAIAvailable = True,
      deepseek_create = (\<lambda>n r. Inl (Error ''Connection error.'')),
      openai_create = (\<lambda>n r. Inl (Error ''Connection error.'')),
      deepseek_create_stream = (\<lambda>n r. Inl (Error ''Connection error.'')),
      openai_create_stream = (\<lambda>n r. Inl (Error ''Connection error.'')),
      duckduckgo_get = (\<lambda>n q. Inl (Error ''timeout of 10000ms exceeded'')),
      google_get = (\<lambda>n q. Inl (Error ''timeout of 10000ms exceeded'')),
      nowISO = ''2025-07-01T10:00:00.000Z'',
      development = False \<rparr>"

text \<open>
  Both providers are configured; the primary's call throws a plain network error, the
  secondary would answer, and so does the instant-answer API.
\<close>

definition primary_down_env :: ai_env where
  "primary_down_env = dead_env \<lparr>
      openai_create := (\<lambda>n r. Inr \<lparr> choices = [''Hello from the secondary.''], usage = JNull \<rparr>),
      duckduckgo_get := (\<lambda>n q. Inr \<lparr> AbstractText = ''An instant answer.'', Answer = [], Definition = [] \<rparr>) \<rparr>"

text \<open>The primary answers.\<close>

definition healthy_env :: ai_env where
  "healthy_env = dead_env \<lparr>
      deepseek_create := (\<lambda>n r. Inr \<lparr> choices = [''Hi there.''], usage = JNull \<rparr>),
      deepseek_create_stream :=
        (\<lambda>n r. Inr \<lparr> chunks = [Some ''Hi'', None, Some '' there.''], failure = None \<rparr>) \<rparr>"

text \<open>No provider is configured; the instant-answer API answers.\<close>

definition web_only_env :: ai_env where
  "web_only_env = primary_down_env \<lparr> isDeepSeekAvailable := False, isOpenAIAvailable := False \<rparr>"

definition empty_http :: http_state where
  "empty_http = \<lparr> conversations = Map.empty, voiceSessions = Map.empty, ai_calls = [] \<rparr>"

text \<open>One socket, \<open>s1\<close>, registered for user \<open>u1\<close>.\<close>

definition one_socket :: socket_state where
  "one_socket = \<lparr> activeUsers = [''s1'' \<mapsto> [(''userId'', JStr ''u1''), (''sessionId'', JStr ''default''),
                                             (''preferences'', JObj []),
                                             (''connectedAt'', JStr ''2025-07-01T09:00:00.000Z''),
                                             (''lastActivity'', JStr ''2025-07-01T09:00:00.000Z'')]],
                   sessions = Map.empty, emitted = [], outside = [] \<rparr>"

text \<open>
  A runtime for the examples: it is 2025-07-01T10:00:00Z, local time is UTC+05:30, and
  the date strings the examples use parse as the engine parses them (a date-only string
  is UTC midnight of that day; \<open>+010000-01-01\<close> is the first day of the year 10000).
\<close>

definition example_runtime :: js_runtime where
  "example_runtime =
     \<lparr> Date_parse = (\<lambda>v. if v = JStr ''2025-07-01'' then Some 1751328000000
                          else if v = JStr ''2025-06-30'' then Some 1751241600000
                          else if v = JStr ''+010000-01-01'' then Some 253402300800000
                          else None),
       now_ms = 1751364000000,
       LocalTZA = (\<lambda>t isUTC. 19800000),
       parseInt = (\<lambda>v. case v of JNum x \<Rightarrow> JNum (real_of_int \<lfloor>x\<rfloor>) | _ \<Rightarrow> JNaN),
       toNumber = (\<lambda>v. None),
       toString_other = (\<lambda>v. ''undefined'') \<rparr>"

text \<open>The bus booking of the repository's own test (test-backend.js): it has no \<open>seatType\<close>.\<close>

definition test_bus_booking :: obj where
  "test_bus_booking =
     [(''type'', JStr ''bus''), (''from'', JStr ''Delhi''), (''to'', JStr ''Mumbai''),
      (''date'', JStr ''2025-07-01''), (''time'', JStr ''10:00''),
      (''passengers'', JArr [JObj [(''name'', JStr ''Test User''), (''age'', JNum 30)]])]"

text \<open>The same booking without its time, and a flight booking without its departure date.\<close>

definition bus_without_time :: obj where
  "bus_without_time =
     [(''type'', JStr ''bus''), (''from'', JStr ''Delhi''), (''to'', JStr ''Mumbai''),
      (''date'', JStr ''2025-07-01''),
      (''passengers'', JArr [JObj [(''name'', JStr ''Test User''), (''age'', JNum 30)]])]"

definition flight_without_departure :: obj where
  "flight_without_departure =
     [(''type'', JStr ''flight''), (''from'', JStr ''Delhi''), (''to'', JStr ''Mumbai''),
      (''passengers'', JArr [JObj [(''name'', JStr ''Test User''), (''age'', JNum 30)]]),
      (''class'', JStr ''economy'')]"

text \<open>The test's booking for the day before, and with a date that does not parse.\<close>

definition bus_yesterday :: obj where
  "bus_yesterday =
     [(''type'', JStr ''bus''), (''from'', JStr ''Delhi''), (''to'', JStr ''Mumbai''),
      (''date'', JStr ''2025-06-30''), (''time'', JStr ''10:00''),
      (''passengers'', JArr [JObj [(''name'', JStr ''Test User''), (''age'', JNum 30)]])]"

definition bus_tomorrow_word :: obj where
  "bus_tomorrow_word =
     [(''type'', JStr ''bus''), (''from'', JStr ''Delhi''), (''to'', JStr ''Mumbai''),
      (''date'', JStr ''tomorrow''), (''time'', JStr ''10:00''),
      (''passengers'', JArr [JObj [(''name'', JStr ''Test User''), (''age'', JNum 30)]])]"

text \<open>The test's booking for the first day of the year 10000.\<close>

definition bus_year_10000 :: obj where
  "bus_year_10000 =
     [(''type'', JStr ''bus''), (''from'', JStr ''Delhi''), (''to'', JStr ''Mumbai''),
      (''date'', JStr ''+010000-01-01''), (''time'', JStr ''10:00''),
      (''passengers'', JArr [JObj [(''name'', JStr ''Test User''), (''age'', JNum 30)]])]"

text \<open>
  A runtime in New York at 2025-03-09T12:00:00Z, the day the clocks go forward there
  (at 07:00 UTC, from UTC-05:00 to UTC-04:00; 03:00 local time is the first local time
  after the change).
\<close>

definition new_york_runtime :: js_runtime where
  "new_york_runtime = example_runtime \<lparr>
      Date_parse := (\<lambda>v. if v = JStr ''2025-03-09T04:30:00Z'' then Some 1741494600000 else None),
      now_ms := 1741521600000,
      LocalTZA := (\<lambda>t isUTC. if isUTC then (if t < 1741503600000 then - 18000000 else - 14400000)
                             else (if t < 1741489200000 then - 18000000 else - 14400000)) \<rparr>"

text \<open>
  Storage: a flat file with one confirmed booking of user \<open>u1\<close>; a gateway whose durable
  backend is down, and one whose backend is marked healthy while every driver call
  throws.
\<close>

definition stored_booking :: obj where
  "stored_booking =
     [(''bookingId'', JStr ''NX123456ABCD''), (''userId'', JStr ''u1''), (''type'', JStr ''bus''),
      (''status'', JStr ''confirmed''), (''updatedAt'', JStr ''2025-07-01T09:00:00.000Z'')]"

definition file_mode :: storage where
  "file_mode = \<lparr> isConnected = False, bookingsFile = Some [stored_booking], writable = True \<rparr>"

definition flagged_healthy :: storage where
  "flagged_healthy = \<lparr> isConnected = True, bookingsFile = Some [], writable = True \<rparr>"

definition failing_driver :: mongo_driver where
  "failing_driver =
     \<lparr> Booking_save = (\<lambda>b. Inl (Error ''buffering timed out after 10000ms'')),
       Booking_findOneAndUpdate = (\<lambda>i u. Inl (Error ''buffering timed out after 10000ms'')) \<rparr>"

definition new_booking :: obj where
  "new_booking =
     [(''bookingId'', JStr ''NX654321WXYZ''), (''userId'', JStr ''u2''), (''type'', JStr ''train''),
      (''status'', JStr ''confirmed'')]"

text \<open>The owner cancels the stored booking twice, a day apart, for two different reasons.\<close>

definition first_cancel :: "http_response \<times> storage" where
  "first_cancel =
     cancel_booking ''2025-07-02T10:00:00.000Z'' ''2025-07-02T10:00:00.001Z'' failing_driver file_mode
       ''NX123456ABCD'' (JStr ''u1'') (JStr ''Change of plans'')"

definition second_cancel :: "http_response \<times> storage" where
  "second_cancel =
     cancel_booking ''2025-07-03T08:30:00.000Z'' ''2025-07-03T08:30:00.002Z'' failing_driver (snd first_cancel)
       ''NX123456ABCD'' (JStr ''u1'') (JStr ''Booked by mistake'')"

section \<open>The conversation cap\<close>

lemma length_flatten: "length (flatten ps) = 2 * length ps"
  by (induction ps) (simp_all add: flatten_def)

lemma flatten_append: "flatten (ps @ qs) = flatten ps @ flatten qs"
  by (simp add: flatten_def)

lemma drop_flatten: "drop (2 * n) (flatten ps) = flatten (drop n ps)"
proof (induction ps arbitrary: n)
  case Nil
  show ?case by (simp add: flatten_def)
next
  case (Cons p ps)
  show ?case
  proof (cases n)
    case 0
    then show ?thesis by simp
  next
    case (Suc m)
    have "drop (2 * Suc m) (flatten (p # ps)) = drop (2 * m) (flatten ps)"
      by (simp add: flatten_def)
    with Cons.IH [of m] Suc show ?thesis by simp
  qed
qed

lemma slice_last_flatten: "slice_last 20 (flatten ps) = flatten (slice_last 10 ps)"
proof -
  have "length (flatten ps) - 20 = 2 * (length ps - 10)"
    by (simp add: length_flatten)
  then show ?thesis
    by (simp add: slice_last_def drop_flatten)
qed

lemma slice_last_idem_append:
  "slice_last n (slice_last n xs @ ys) = slice_last n (xs @ ys)"
proof (cases "length xs \<le> n")
  case True
  then show ?thesis by (simp add: slice_last_def)
next
  case False
  then have "length xs - n + n = length xs" and "length xs + length ys - n - length xs = length ys - n"
    by simp_all
  with False show ?thesis
    by (simp add: slice_last_def add.commute)
qed

lemma push_exchange_window:
  "push_exchange u a (flatten (slice_last 10 ps)) = flatten (slice_last 10 (ps @ [(u, a)]))"
proof -
  let ?w = "slice_last 10 ps"
  have app: "flatten ?w @ [u, a] = flatten (?w @ [(u, a)])"
    by (simp add: flatten_def)
  have len: "length (flatten (?w @ [(u, a)])) = 2 * (min (length ps) 10 + 1)"
    by (simp add: length_flatten slice_last_def min_def)
  show ?thesis
  proof (cases "length ps < 10")
    case True
    then have "slice_last 10 (ps @ [(u, a)]) = ps @ [(u, a)]" and "?w = ps"
      by (simp_all add: slice_last_def)
    with True len app show ?thesis
      by (simp add: push_exchange_def Let_def)
  next
    case False
    then have big: "20 < length (flatten (?w @ [(u, a)]))"
      using len by simp
    have "slice_last 20 (flatten (?w @ [(u, a)])) = flatten (slice_last 10 (?w @ [(u, a)]))"
      by (rule slice_last_flatten)
    also have "slice_last 10 (?w @ [(u, a)]) = slice_last 10 (ps @ [(u, a)])"
      by (rule slice_last_idem_append)
    finally show ?thesis
      using big app by (simp add: push_exchange_def Let_def)
  qed
qed

lemma run_appends_snoc:
  "run_appends c (ops @ [(k, u, a)]) = remember (run_appends c ops) k u a"
  by (simp add: run_appends_def)

lemma exchanges_of_snoc:
  "exchanges_of key (ops @ [(k, u, a)]) =
     (if k = key then exchanges_of key ops @ [(u, a)] else exchanges_of key ops)"
  by (simp add: exchanges_of_def)

lemma get_context_run_appends:
  "get_context (run_appends Map.empty ops) key = flatten (slice_last 10 (exchanges_of key ops))"
proof (induction ops rule: rev_induct)
  case Nil
  show ?case
    by (simp add: run_appends_def get_context_def exchanges_of_def flatten_def slice_last_def)
next
  case (snoc op ops)
  obtain k u a where op: "op = (k, u, a)"
    by (cases op) auto
  show ?case
  proof (cases "k = key")
    case True
    have "get_context (run_appends Map.empty (ops @ [op])) key =
            push_exchange u a (get_context (run_appends Map.empty ops) key)"
      using True by (simp add: op run_appends_snoc remember_def get_context_def)
    also have "\<dots> = flatten (slice_last 10 (exchanges_of key ops @ [(u, a)]))"
      by (simp add: snoc.IH push_exchange_window)
    finally show ?thesis
      using True by (simp add: op exchanges_of_snoc)
  next
    case False
    then have "get_context (run_appends Map.empty (ops @ [op])) key =
                 get_context (run_appends Map.empty ops) key"
      by (simp add: op run_appends_snoc remember_def get_context_def)
    with False snoc.IH show ?thesis
      by (simp add: op exchanges_of_snoc)
  qed
qed

text \<open>
  C5. After any sequence of append operations on any keys, starting from an empty
  \<open>Map\<close>, the context read back for a key is exactly the last 20 of the messages
  appended under that key; it is made of the last 10 exchanges, each a whole
  (user turn, assistant turn) pair, so it never holds more than 20 messages and its
  length is even.
\<close>

theorem conversation_cap:
  "get_context (run_appends Map.empty ops) key = slice_last 20 (flatten (exchanges_of key ops))
   \<and> get_context (run_appends Map.empty ops) key = flatten (slice_last 10 (exchanges_of key ops))
   \<and> length (get_context (run_appends Map.empty ops) key) \<le> 20
   \<and> even (length (get_context (run_appends Map.empty ops) key))"
proof -
  let ?ctx = "get_context (run_appends Map.empty ops) key"
  have w: "?ctx = flatten (slice_last 10 (exchanges_of key ops))"
    by (rule get_context_run_appends)
  have "length (slice_last 10 (exchanges_of key ops)) \<le> 10"
    by (simp add: slice_last_def)
  then have "length ?ctx \<le> 20" and "even (length ?ctx)"
    by (simp_all add: w length_flatten)
  with w show ?thesis
    by (simp add: slice_last_flatten)
qed

section \<open>The provider chain\<close>

text \<open>The branches of \<open>processMessage\<close>, one lemma each.\<close>

lemma processMessage_try_ok:
  assumes "(if isDeepSeekAvailable env then callDeepSeek env msg ctx ur cs
            else if isOpenAIAvailable env then callOpenAI env msg ctx cs
            else webSearch env msg cs) = (Inr r, cs1)"
  shows "processMessage env msg ctx ur cs = (Inr r, cs1)"
  unfolding processMessage_def using assms by simp

lemma processMessage_catch_secondary:
  assumes "(if isDeepSeekAvailable env then callDeepSeek env msg ctx ur cs
            else if isOpenAIAvailable env then callOpenAI env msg ctx cs
            else webSearch env msg cs) = (Inl e, cs1)"
      and "isOpenAIAvailable env" and "str_includes (message_of e) ''DeepSeek''"
      and "callOpenAI env msg ctx cs1 = (Inr r, cs2)"
  shows "processMessage env msg ctx ur cs = (Inr r, cs2)"
  unfolding processMessage_def using assms by simp

lemma processMessage_catch_web:
  assumes "(if isDeepSeekAvailable env then callDeepSeek env msg ctx ur cs
            else if isOpenAIAvailable env then callOpenAI env msg ctx cs
            else webSearch env msg cs) = (Inl e, cs1)"
      and "cs2 = (if isOpenAIAvailable env \<and> str_includes (message_of e) ''DeepSeek''
                     then snd (callOpenAI env msg ctx cs1) else cs1)"
      and "isOpenAIAvailable env \<and> str_includes (message_of e) ''DeepSeek''
             \<Longrightarrow> isl (fst (callOpenAI env msg ctx cs1))"
  shows "processMessage env msg ctx ur cs =
           (case webSearch env msg cs2 of
              (Inr r, cs3) \<Rightarrow> (Inr r, cs3)
            | (Inl searchError, cs3) \<Rightarrow> (Inr (apology env), cs3))"
proof (cases "isOpenAIAvailable env \<and> str_includes (message_of e) ''DeepSeek''")
  case True
  obtain x c where o: "callOpenAI env msg ctx cs1 = (x, c)"
    by (cases "callOpenAI env msg ctx cs1")
  with assms(3) True obtain oe where "x = Inl oe"
    by (cases x) auto
  with o True assms(1,2) show ?thesis
    unfolding processMessage_def by simp
next
  case False
  with assms(1,2) show ?thesis
    unfolding processMessage_def by auto
qed

lemma processMessage_returns:
  "\<exists>r cs'. processMessage env msg ctx ur cs = (Inr r, cs')"
proof -
  obtain x cs1 where t: "(if isDeepSeekAvailable env then callDeepSeek env msg ctx ur cs
            else if isOpenAIAvailable env then callOpenAI env msg ctx cs
            else webSearch env msg cs) = (x, cs1)"
    by fastforce
  show ?thesis
  proof (cases x)
    case (Inr r)
    with t show ?thesis by (auto dest: processMessage_try_ok)
  next
    case (Inl e)
    show ?thesis
    proof (cases "isOpenAIAvailable env \<and> str_includes (message_of e) ''DeepSeek''
                  \<and> \<not> isl (fst (callOpenAI env msg ctx cs1))")
      case True
      then obtain r cs2 where "callOpenAI env msg ctx cs1 = (Inr r, cs2)"
        by (cases "callOpenAI env msg ctx cs1"; cases "fst (callOpenAI env msg ctx cs1)") auto
      with True t Inl show ?thesis
        by (auto dest: processMessage_catch_secondary)
    next
      case False
      define cs2 where "cs2 = (if isOpenAIAvailable env \<and> str_includes (message_of e) ''DeepSeek''
                     then snd (callOpenAI env msg ctx cs1) else cs1)"
      have "processMessage env msg ctx ur cs =
           (case webSearch env msg cs2 of
              (Inr r, cs3) \<Rightarrow> (Inr r, cs3)
            | (Inl searchError, cs3) \<Rightarrow> (Inr (apology env), cs3))"
        using t Inl False cs2_def by (intro processMessage_catch_web [where e = e and ?cs1.0 = cs1]) auto
      then show ?thesis
        by (cases "webSearch env msg cs2"; cases "fst (webSearch env msg cs2)") auto
    qed
  qed
qed

lemma callOpenAI_source:
  "callOpenAI env msg ctx cs = (Inr r, cs') \<Longrightarrow> get_prop r ''source'' = JStr ''openai''"
  by (auto simp: callOpenAI_def Let_def get_prop_def split: sum.splits)

lemma webSearch_source:
  "webSearch env q cs = (Inr r, cs') \<Longrightarrow> get_prop r ''source'' = JStr ''web_search''"
  by (auto simp: webSearch_def Let_def get_prop_def split: sum.splits prod.splits)

lemma apology_fields:
  "get_prop (apology env) ''response'' =
     JStr ''I'm having trouble processing your request right now. Please try again later.''"
  "get_prop (apology env) ''source'' = JStr ''error''"
  by (simp_all add: apology_def get_prop_def)

text \<open>
  C3. \<open>processMessage\<close> never throws: for every input it returns a result. And when
  the primary call, the secondary call and the web search fail whenever they are made,
  the result is the apology, whose response is the fixed text and whose source is
  \<open>error\<close>.
\<close>

theorem processMessage_never_throws:
  "(\<exists>r cs'. processMessage env msg ctx ur cs = (Inr r, cs')) \<and>
   ((\<forall>c. isl (fst (callDeepSeek env msg ctx ur c))) \<and>
    (\<forall>c. isl (fst (callOpenAI env msg ctx c))) \<and>
    (\<forall>c. isl (fst (webSearch env msg c)))
    \<longrightarrow> fst (processMessage env msg ctx ur cs) = Inr (apology env)
        \<and> get_prop (apology env) ''response'' =
              JStr ''I'm having trouble processing your request right now. Please try again later.''
        \<and> get_prop (apology env) ''source'' = JStr ''error'')"
proof (intro conjI impI)
  show "\<exists>r cs'. processMessage env msg ctx ur cs = (Inr r, cs')"
    by (rule processMessage_returns)
next
  assume h: "(\<forall>c. isl (fst (callDeepSeek env msg ctx ur c))) \<and>
    (\<forall>c. isl (fst (callOpenAI env msg ctx c))) \<and>
    (\<forall>c. isl (fst (webSearch env msg c)))"
  let ?attempt = "if isDeepSeekAvailable env then callDeepSeek env msg ctx ur cs
            else if isOpenAIAvailable env then callOpenAI env msg ctx cs
            else webSearch env msg cs"
  have "isl (fst ?attempt)"
    using h by simp
  then obtain e cs1 where t: "?attempt = (Inl e, cs1)"
    by (cases ?attempt; cases "fst ?attempt") auto
  define cs2 where "cs2 = (if isOpenAIAvailable env \<and> str_includes (message_of e) ''DeepSeek''
                     then snd (callOpenAI env msg ctx cs1) else cs1)"
  have p: "processMessage env msg ctx ur cs =
           (case webSearch env msg cs2 of
              (Inr r, cs3) \<Rightarrow> (Inr r, cs3)
            | (Inl searchError, cs3) \<Rightarrow> (Inr (apology env), cs3))"
    using t cs2_def h by (intro processMessage_catch_web [where e = e and ?cs1.0 = cs1]) auto
  have "isl (fst (webSearch env msg cs2))"
    using h by simp
  then obtain se cs3 where "webSearch env msg cs2 = (Inl se, cs3)"
    by (cases "webSearch env msg cs2"; cases "fst (webSearch env msg cs2)") auto
  with p show "fst (processMessage env msg ctx ur cs) = Inr (apology env)"
    by simp
qed (rule apology_fields)+

lemma dead_deepseek: "isl (fst (callDeepSeek dead_env msg ctx ur c))"
  by (simp add: callDeepSeek_def dead_env_def Let_def)

lemma dead_openai: "isl (fst (callOpenAI dead_env msg ctx c))"
  by (simp add: callOpenAI_def dead_env_def Let_def)

lemma dead_web: "isl (fst (webSearch dead_env msg c))"
  by (simp add: webSearch_def dead_env_def Let_def)

theorem processMessage_never_throws_witness:
  "(\<exists>r cs'. processMessage dead_env ''Hello'' [] False [] = (Inr r, cs')) \<and>
   fst (processMessage dead_env ''Hello'' [] False []) = Inr (apology dead_env) \<and>
   get_prop (apology dead_env) ''source'' = JStr ''error''"
proof -
  have "(\<forall>c. isl (fst (callDeepSeek dead_env ''Hello'' [] False c))) \<and>
    (\<forall>c. isl (fst (callOpenAI dead_env ''Hello'' [] c))) \<and>
    (\<forall>c. isl (fst (webSearch dead_env ''Hello'' c)))"
    by (simp add: dead_deepseek dead_openai dead_web)
  with processMessage_never_throws [of dead_env "''Hello''" "[]" False "[]"]
  show ?thesis by simp
qed
text \<open>
  Both providers configured, the primary's call throws the SDK's plain
  \<open>Connection error.\<close>, the secondary would answer.
\<close>

lemma primary_down_deepseek:
  "fst (callDeepSeek primary_down_env msg ctx ur c) = Inl (Error ''Connection error.'')"
  by (simp add: callDeepSeek_def primary_down_env_def dead_env_def Let_def)

lemma primary_down_web:
  "\<exists>c'. webSearch primary_down_env msg c =
     (Inr [(''response'', JStr ''An instant answer.''), (''source'', JStr ''web_search''),
           (''timestamp'', JStr ''2025-07-01T10:00:00.000Z'')], c')"
  by (simp add: webSearch_def primary_down_env_def dead_env_def Let_def)

lemma primary_down_openai_would_succeed:
  "\<exists>r c'. callOpenAI primary_down_env msg ctx c = (Inr r, c')"
  by (simp add: callOpenAI_def primary_down_env_def dead_env_def Let_def first_choice_def)

lemma primary_down_result:
  "fst (processMessage primary_down_env ''Hello'' [] False []) =
     Inr [(''response'', JStr ''An instant answer.''), (''source'', JStr ''web_search''),
          (''timestamp'', JStr ''2025-07-01T10:00:00.000Z'')]"
proof -
  obtain c1 where t: "callDeepSeek primary_down_env ''Hello'' [] False [] = (Inl (Error ''Connection error.''), c1)"
    using primary_down_deepseek [of "''Hello''" "[]" False "[]"]
    by (cases "callDeepSeek primary_down_env ''Hello'' [] False []") auto
  have av: "isDeepSeekAvailable primary_down_env" "isOpenAIAvailable primary_down_env"
    by (simp_all add: primary_down_env_def dead_env_def)
  have "processMessage primary_down_env ''Hello'' [] False [] =
            (case webSearch primary_down_env ''Hello'' c1 of
               (Inr w, cs3) \<Rightarrow> (Inr w, cs3)
             | (Inl searchError, cs3) \<Rightarrow> (Inr (apology primary_down_env), cs3))"
    using t av by (intro processMessage_catch_web [where e = "Error ''Connection error.''" and ?cs1.0 = c1]) auto
  with primary_down_web [of "''Hello''" c1] show ?thesis
    by auto
qed

text \<open>
  Claim C2, where the code departs from it. The \<open>catch\<close> of \<open>processMessage\<close>, which
  is there to try the fallback methods, calls the secondary provider only if the message
  of the caught error contains \<open>DeepSeek\<close>. The primary's call fails with
  \<open>Connection error.\<close>; nothing in the repository puts the provider's name into that
  message. So with both providers configured and the secondary ready to answer, the
  secondary is never called: the result comes from the web search and its source is
  \<open>web_search\<close>, not \<open>openai\<close>.
\<close>

theorem connection_error_skips_the_secondary:
  "isDeepSeekAvailable primary_down_env \<and> isOpenAIAvailable primary_down_env
   \<and> fst (callDeepSeek primary_down_env ''Hello'' [] False []) = Inl (Error ''Connection error.'')
   \<and> fst (callOpenAI primary_down_env ''Hello'' [] []) =
         Inr [(''response'', JStr ''Hello from the secondary.''), (''source'', JStr ''openai''),
              (''model'', JStr ''gpt-3.5-turbo''), (''timestamp'', JStr ''2025-07-01T10:00:00.000Z''),
              (''usage'', JNull)]
   \<and> fst (processMessage primary_down_env ''Hello'' [] False []) =
         Inr [(''response'', JStr ''An instant answer.''), (''source'', JStr ''web_search''),
              (''timestamp'', JStr ''2025-07-01T10:00:00.000Z'')]
   \<and> filter (\<lambda>c. case c of OpenAICall request \<Rightarrow> True | _ \<Rightarrow> False)
         (snd (processMessage primary_down_env ''Hello'' [] False [])) = []"
proof (intro conjI)
  show "isDeepSeekAvailable primary_down_env" and "isOpenAIAvailable primary_down_env"
    by (simp_all add: primary_down_env_def dead_env_def)
  show "fst (callDeepSeek primary_down_env ''Hello'' [] False []) = Inl (Error ''Connection error.'')"
    by (rule primary_down_deepseek)
  show "fst (callOpenAI primary_down_env ''Hello'' [] []) =
         Inr [(''response'', JStr ''Hello from the secondary.''), (''source'', JStr ''openai''),
              (''model'', JStr ''gpt-3.5-turbo''), (''timestamp'', JStr ''2025-07-01T10:00:00.000Z''),
              (''usage'', JNull)]"
    by (simp add: callOpenAI_def primary_down_env_def dead_env_def Let_def first_choice_def)
  show "fst (processMessage primary_down_env ''Hello'' [] False []) =
         Inr [(''response'', JStr ''An instant answer.''), (''source'', JStr ''web_search''),
              (''timestamp'', JStr ''2025-07-01T10:00:00.000Z'')]"
    by (rule primary_down_result)
  show "filter (\<lambda>c. case c of OpenAICall request \<Rightarrow> True | _ \<Rightarrow> False)
         (snd (processMessage primary_down_env ''Hello'' [] False [])) = []"
    by code_simp
qed

text \<open>
  Had the error named the provider, the secondary's answer would have been the result.
\<close>

lemma named_error_reaches_the_secondary:
  assumes "isDeepSeekAvailable env" and "isOpenAIAvailable env"
    and "callDeepSeek env msg ctx ur cs = (Inl e, cs1)"
    and "str_includes (message_of e) ''DeepSeek''"
    and "callOpenAI env msg ctx cs1 = (Inr r, cs2)"
  shows "processMessage env msg ctx ur cs = (Inr r, cs2)" and "get_prop r ''source'' = JStr ''openai''"
proof -
  from assms show "processMessage env msg ctx ur cs = (Inr r, cs2)"
    by (intro processMessage_catch_secondary [where e = e and ?cs1.0 = cs1]) auto
  from assms(5) show "get_prop r ''source'' = JStr ''openai''"
    by (auto dest: callOpenAI_source)
qed
section \<open>The confidence gate\<close>

text \<open>
  For a confidence that is not zero and is below 0.7, the voice route answers a request
  that has a transcript and a userId with the fixed reply and \<open>requiresRepeat\<close>, and
  leaves the whole state as it was: no outside call, no turn appended.
\<close>

lemma voice_process_gate:
  assumes "tr \<noteq> []" and "uid \<noteq> []" and "c \<noteq> 0" and "c < 7 / 10"
  shows "voice_process env (Some tr) (Some uid) sessionId language (Some c) st =
           (\<lparr>status = 200,
             body = [(''success'', JBool True),
                     (''response'', JStr ''I didn't quite catch that. Could you please repeat?''),
                     (''confidence'', JNum c),
                     (''timestamp'', JStr (nowISO env)),
                     (''requiresRepeat'', JBool True)]\<rparr>, st)"
  using assms by (simp add: voice_process_def low_confidence_def confidence_value_def)

text \<open>
  The socket handler, for a socket registered to the same user: it emits the fixed reply
  and only refreshes \<open>lastActivity\<close>; the voice sessions and the log of outside calls
  are untouched.
\<close>

lemma handleVoiceCommand_gate:
  assumes "\<not> unauthorized st socket_id userId" and "c \<noteq> 0" and "c < 7 / 10"
  shows "handleVoiceCommand env socket_id transcript userId sessionId (Some c) language st =
           emit socket_id ''voice-response''
             [(''response'', JStr ''I didn't quite catch that. Could you please repeat?''),
              (''confidence'', JNum c),
              (''timestamp'', JStr (nowISO env)),
              (''requiresRepeat'', JBool True),
              (''shouldSpeak'', JBool True)] (touch env st socket_id)"
  using assms by (simp add: handleVoiceCommand_def low_confidence_def confidence_value_def Let_def)

lemma emit_touch_frame:
  "sessions (emit socket_id event payload (touch env st socket_id)) = sessions st"
  "outside (emit socket_id event payload (touch env st socket_id)) = outside st"
  by (simp_all add: emit_def touch_def split: option.splits)

text \<open>A confidence of exactly zero is falsy, so the gate lets it through.\<close>

lemma zero_is_not_low: "\<not> low_confidence (Some 0)"
  by (simp add: low_confidence_def)

lemma healthy_processMessage:
  "\<exists>req. processMessage healthy_env msg [] False cs =
     (Inr [(''response'', JStr ''Hi there.''), (''source'', JStr ''deepseek''),
           (''model'', JStr ''deepseek-chat''), (''timestamp'', JStr ''2025-07-01T10:00:00.000Z''),
           (''usage'', JNull)], cs @ [DeepSeekCall req])"
proof -
  have "\<exists>req. callDeepSeek healthy_env msg [] False cs =
     (Inr [(''response'', JStr ''Hi there.''), (''source'', JStr ''deepseek''),
           (''model'', JStr ''deepseek-chat''), (''timestamp'', JStr ''2025-07-01T10:00:00.000Z''),
           (''usage'', JNull)], cs @ [DeepSeekCall req])"
    by (simp add: callDeepSeek_def healthy_env_def dead_env_def Let_def first_choice_def)
  then obtain req where "callDeepSeek healthy_env msg [] False cs =
     (Inr [(''response'', JStr ''Hi there.''), (''source'', JStr ''deepseek''),
           (''model'', JStr ''deepseek-chat''), (''timestamp'', JStr ''2025-07-01T10:00:00.000Z''),
           (''usage'', JNull)], cs @ [DeepSeekCall req])"
    by blast
  moreover have "isDeepSeekAvailable healthy_env"
    by (simp add: healthy_env_def dead_env_def)
  ultimately show ?thesis
    by (auto intro!: processMessage_try_ok)
qed

text \<open>
  C1 fails at confidence 0, on both paths. The request: transcript \<open>hello\<close>, user
  \<open>u1\<close>, confidence 0, the primary provider answering \<open>Hi there.\<close>. The voice route
  answers with the provider's reply, without \<open>requiresRepeat\<close>, reports confidence 1,
  makes one outside call and stores the exchange; the socket handler does the same.
\<close>

theorem zero_confidence_passes_the_gate:
  "get_prop (body (fst (voice_process healthy_env (Some ''hello'') (Some ''u1'') None None (Some 0) empty_http)))
      ''response'' = JStr ''Hi there.''
   \<and> get_prop (body (fst (voice_process healthy_env (Some ''hello'') (Some ''u1'') None None (Some 0) empty_http)))
      ''requiresRepeat'' = JUndefined
   \<and> get_prop (body (fst (voice_process healthy_env (Some ''hello'') (Some ''u1'') None None (Some 0) empty_http)))
      ''confidence'' = JNum 1
   \<and> length (ai_calls (snd (voice_process healthy_env (Some ''hello'') (Some ''u1'') None None (Some 0) empty_http))) = 1
   \<and> get_context (voiceSessions (snd (voice_process healthy_env (Some ''hello'') (Some ''u1'') None None (Some 0) empty_http)))
        ''u1_default'' = [voice_user_turn ''hello'', voice_assistant_turn (JStr ''Hi there.'')]
   \<and> map (\<lambda>e. (fst (snd e), get_prop (snd (snd e)) ''response'', get_prop (snd (snd e)) ''requiresRepeat''))
         (emitted (handleVoiceCommand healthy_env ''s1'' ''hello'' ''u1'' None (Some 0) None one_socket))
        = [(''voice-response'', JStr ''Hi there.'', JUndefined)]
   \<and> length (outside (handleVoiceCommand healthy_env ''s1'' ''hello'' ''u1'' None (Some 0) None one_socket)) = 1
   \<and> get_context (sessions (handleVoiceCommand healthy_env ''s1'' ''hello'' ''u1'' None (Some 0) None one_socket))
        ''u1_default'' = [voice_user_turn ''hello'', voice_assistant_turn (JStr ''Hi there.'')]"
proof -
  obtain req where p: "processMessage healthy_env ''hello'' [] False [] =
     (Inr [(''response'', JStr ''Hi there.''), (''source'', JStr ''deepseek''),
           (''model'', JStr ''deepseek-chat''), (''timestamp'', JStr ''2025-07-01T10:00:00.000Z''),
           (''usage'', JNull)], [] @ [DeepSeekCall req])"
    using healthy_processMessage [of "''hello''" "[]"] by blast
  have v: "voice_process healthy_env (Some ''hello'') (Some ''u1'') None None (Some 0) empty_http =
          (\<lparr>status = 200,
            body = [(''success'', JBool True),
                    (''response'', JStr ''Hi there.''),
                    (''source'', JStr ''deepseek''),
                    (''model'', JStr ''deepseek-chat''),
                    (''timestamp'', JStr ''2025-07-01T10:00:00.000Z''),
                    (''commandType'', JStr ''general''),
                    (''sessionId'', JStr ''default''),
                    (''language'', JStr ''en''),
                    (''confidence'', JNum 1),
                    (''shouldSpeak'', JBool True)]\<rparr>,
           empty_http\<lparr>voiceSessions :=
                        remember Map.empty ''u1_default'' (voice_user_turn ''hello'')
                          (voice_assistant_turn (JStr ''Hi there.'')),
                      ai_calls := [DeepSeekCall req]\<rparr>)"
    using p
    by (simp add: voice_process_def zero_is_not_low contextKey_def or_default_def get_context_def
        empty_http_def get_prop_def confidence_or_one_def detectCommandType_def toLowerCase_def
        lower_char_def Let_def)
  have auth: "\<not> unauthorized one_socket ''s1'' ''u1''"
    by (simp add: unauthorized_def one_socket_def get_prop_def)
  have ctx0: "get_context (sessions (touch healthy_env one_socket ''s1'')) ''u1_default'' = []"
             "outside (touch healthy_env one_socket ''s1'') = []"
    by (simp_all add: touch_def one_socket_def get_context_def)
  have s: "handleVoiceCommand healthy_env ''s1'' ''hello'' ''u1'' None (Some 0) None one_socket =
           emit ''s1'' ''voice-response''
             [(''response'', JStr ''Hi there.''),
              (''source'', JStr ''deepseek''),
              (''model'', JStr ''deepseek-chat''),
              (''timestamp'', JStr ''2025-07-01T10:00:00.000Z''),
              (''commandType'', JStr ''general''),
              (''confidence'', JNum 1),
              (''shouldSpeak'', JBool True),
              (''language'', JStr ''en'')]
             ((touch healthy_env one_socket ''s1'')
                \<lparr>sessions := remember (sessions (touch healthy_env one_socket ''s1'')) ''u1_default''
                               (voice_user_turn ''hello'') (voice_assistant_turn (JStr ''Hi there.'')),
                 outside := [DeepSeekCall req]\<rparr>)"
    using p auth ctx0
    by (simp add: handleVoiceCommand_def zero_is_not_low contextKey_def or_default_def
        get_prop_def confidence_or_one_def socket_detectCommandType_def toLowerCase_def
        lower_char_def Let_def)
  have e0: "emitted (touch healthy_env one_socket ''s1'') = []"
    by (simp add: touch_def one_socket_def)
  show ?thesis
    unfolding v s
    using ctx0 e0
    by (simp add: get_prop_def remember_def get_context_def push_exchange_def emit_def
        voice_user_turn_def voice_assistant_turn_def Let_def)
qed

section \<open>Streaming\<close>

lemma contents_Cons:
  "contents (ch # chs) =
     (if (case ch of None \<Rightarrow> [] | Some s \<Rightarrow> s) = [] then contents chs
      else (case ch of None \<Rightarrow> [] | Some s \<Rightarrow> s) # contents chs)"
  by (simp add: contents_def)

lemma stream_chunks_Cons:
  "stream_chunks callback (ch # chs) (acc, c) =
     (if (case ch of None \<Rightarrow> [] | Some s \<Rightarrow> s) = [] then stream_chunks callback chs (acc, c)
      else stream_chunks callback chs
             (acc @ (case ch of None \<Rightarrow> [] | Some s \<Rightarrow> s),
              callback (case ch of None \<Rightarrow> [] | Some s \<Rightarrow> s) False c))"
  by (simp add: Let_def)

lemma stream_chunks_record:
  "snd (stream_chunks record_callback chs (acc, trace)) =
     trace @ map (\<lambda>s. (s, False)) (contents chs)"
proof (induction chs arbitrary: acc trace)
  case Nil
  show ?case by (simp add: contents_def)
next
  case (Cons ch chs)
  show ?case
    unfolding stream_chunks_Cons contents_Cons
    by (simp add: Cons.IH) (simp add: record_callback_def)
qed

text \<open>
  What \<open>streamResponse\<close> emits, for every request: some partial callbacks, then exactly
  one terminal callback, and nothing after it.
\<close>

lemma streamResponse_one_terminal:
  "\<exists>parts t. fst (streamResponse env msg ctx record_callback [] cs) =
      map (\<lambda>s. (s, False)) parts @ [(t, True)]"
proof (cases "\<not> isDeepSeekAvailable env \<and> \<not> isOpenAIAvailable env")
  case True
  obtain x c1 where w: "webSearch env msg cs = (x, c1)"
    by (cases "webSearch env msg cs")
  show ?thesis
  proof (cases x)
    case (Inl e)
    with True w have "fst (streamResponse env msg ctx record_callback [] cs) =
        map (\<lambda>s. (s, False)) [] @ [(''Sorry, I encountered an error while processing your request.'', True)]"
      by (simp add: streamResponse_def record_callback_def)
    then show ?thesis by blast
  next
    case (Inr r)
    with True w have "fst (streamResponse env msg ctx record_callback [] cs) =
        map (\<lambda>s. (s, False)) [] @ [(str_of (get_prop r ''response''), True)]"
      by (simp add: streamResponse_def record_callback_def)
    then show ?thesis by blast
  qed
next
  case False
  define request where "request =
      [(''model'', JStr (if isDeepSeekAvailable env then ''deepseek-chat'' else ''gpt-3.5-turbo'')),
       (''messages'', build_messages env msg ctx),
       (''temperature'', JNum (7 / 10)), (''max_tokens'', JNum 2000), (''stream'', JBool True)]"
  define created where "created =
      (if isDeepSeekAvailable env then deepseek_create_stream env (length cs) request
       else openai_create_stream env (length cs) request)"
  show ?thesis
  proof (cases created)
    case (Inl e)
    with False have "fst (streamResponse env msg ctx record_callback [] cs) =
        map (\<lambda>s. (s, False)) [] @ [(''Sorry, I encountered an error while processing your request.'', True)]"
      unfolding created_def request_def
      by (auto simp: streamResponse_def record_callback_def Let_def)
    then show ?thesis by blast
  next
    case (Inr stream)
    obtain acc tr where sc: "stream_chunks record_callback (chunks stream) ([], []) = (acc, tr)"
      by (cases "stream_chunks record_callback (chunks stream) ([], [])")
    have tr: "tr = map (\<lambda>s. (s, False)) (contents (chunks stream))"
      using stream_chunks_record [of "chunks stream" "[]" "[]"] sc by simp
    have "fst (streamResponse env msg ctx record_callback [] cs) =
            tr @ [(case failure stream of None \<Rightarrow> []
                   | Some e \<Rightarrow> ''Sorry, I encountered an error while processing your request.'', True)]"
      using False Inr sc unfolding created_def request_def
      by (auto simp: streamResponse_def record_callback_def Let_def split: option.splits)
    with tr show ?thesis by blast
  qed
qed

text \<open>
  On the provider path the route's own callback accumulates the chunks: after the loop
  its \<open>fullResponse\<close> is the concatenation of the contents, one chunk frame was written
  for each, and nothing else changed.
\<close>

lemma stream_callback_partial:
  "stream_callback env key msg ctx chunk False s =
     s\<lparr>fullResponse := fullResponse s @ chunk, frames := frames s @ [chunk_frame env chunk]\<rparr>"
  by (simp add: stream_callback_def chunk_frame_def)

lemma stream_chunks_route:
  "snd (stream_chunks (stream_callback env key msg ctx) chs (acc, s)) =
     s\<lparr>fullResponse := fullResponse s @ concat (contents chs),
       frames := frames s @ map (chunk_frame env) (contents chs)\<rparr>"
proof (induction chs arbitrary: acc s)
  case Nil
  show ?case by (simp add: contents_def)
next
  case (Cons ch chs)
  show ?case
    unfolding stream_chunks_Cons contents_Cons
    by (simp add: Cons.IH stream_callback_partial)
qed

lemma web_only_search:
  "\<exists>c'. webSearch web_only_env msg c =
     (Inr [(''response'', JStr ''An instant answer.''), (''source'', JStr ''web_search''),
           (''timestamp'', JStr ''2025-07-01T10:00:00.000Z'')], c')"
  by (simp add: webSearch_def web_only_env_def primary_down_env_def dead_env_def Let_def)

text \<open>
  C9 fails when no provider is configured. The request: message \<open>hello\<close>, user \<open>u1\<close>;
  the web fallback answers \<open>An instant answer.\<close>. \<open>streamResponse\<close> makes one terminal
  callback carrying that text, but the route's callback ignores the chunk of a terminal
  call: the only frame written is a \<open>complete\<close> frame whose \<open>fullResponse\<close> is empty,
  and the assistant turn stored for the conversation is empty too.
\<close>

theorem stream_drops_web_fallback:
  "fst (streamResponse web_only_env ''hello'' [] record_callback [] []) = [(''An instant answer.'', True)]
   \<and> fst (fst (chat_stream web_only_env (Some ''hello'') (Some ''u1'') None empty_http)) = 200
   \<and> snd (snd (fst (chat_stream web_only_env (Some ''hello'') (Some ''u1'') None empty_http))) =
        [[(''type'', JStr ''complete''), (''fullResponse'', JStr []),
          (''timestamp'', JStr ''2025-07-01T10:00:00.000Z'')]]
   \<and> get_context (conversations (snd (chat_stream web_only_env (Some ''hello'') (Some ''u1'') None empty_http)))
        ''u1_default'' = [user_turn ''hello'', assistant_turn (JStr [])]"
proof -
  obtain c' where w: "webSearch web_only_env ''hello'' [] =
     (Inr [(''response'', JStr ''An instant answer.''), (''source'', JStr ''web_search''),
           (''timestamp'', JStr ''2025-07-01T10:00:00.000Z'')], c')"
    using web_only_search [of "''hello''" "[]"] by blast
  have av: "\<not> isDeepSeekAvailable web_only_env" "\<not> isOpenAIAvailable web_only_env"
           "nowISO web_only_env = ''2025-07-01T10:00:00.000Z''"
    by (simp_all add: web_only_env_def primary_down_env_def dead_env_def)
  have a: "fst (streamResponse web_only_env ''hello'' [] record_callback [] []) =
             [(''An instant answer.'', True)]"
    using w av by (simp add: streamResponse_def record_callback_def get_prop_def)
  have b: "chat_stream web_only_env (Some ''hello'') (Some ''u1'') None empty_http =
             ((200, [], [[(''type'', JStr ''complete''), (''fullResponse'', JStr []),
                          (''timestamp'', JStr ''2025-07-01T10:00:00.000Z'')]]),
              empty_http\<lparr>conversations :=
                  [''u1_default'' \<mapsto> [user_turn ''hello'', assistant_turn (JStr [])]],
                ai_calls := c'\<rparr>)"
    using w av
    by (simp add: chat_stream_def streamResponse_def stream_callback_def contextKey_def
        or_default_def get_context_def empty_http_def push_exchange_def get_prop_def Let_def)
  show ?thesis
    unfolding b using a by (simp add: get_context_def)
qed

text \<open>
  On the provider path the same route does deliver the whole text: with the primary
  streaming \<open>Hi\<close>, an empty chunk and \<open> there.\<close>, it writes two chunk frames and a
  \<open>complete\<close> frame carrying \<open>Hi there.\<close>.
\<close>

lemma stream_provider_path:
  "snd (snd (fst (chat_stream healthy_env (Some ''hello'') (Some ''u1'') None empty_http))) =
     [chunk_frame healthy_env ''Hi'', chunk_frame healthy_env '' there.'',
      complete_frame healthy_env ''Hi there.'']"
proof -
  have av: "isDeepSeekAvailable healthy_env"
    by (simp add: healthy_env_def dead_env_def)
  have cr: "deepseek_create_stream healthy_env n r =
              Inr \<lparr> chunks = [Some ''Hi'', None, Some '' there.''], failure = None \<rparr>" for n r
    by (simp add: healthy_env_def dead_env_def)
  show ?thesis
    using av
    by (simp add: chat_stream_def streamResponse_def cr stream_callback_def contextKey_def
        or_default_def get_context_def empty_http_def chunk_frame_def complete_frame_def Let_def)
qed

section \<open>Required fields\<close>

lemma and_then_Inl [simp]: "and_then (Inl e) f = Inl e"
  by (simp add: and_then_def)

lemma and_then_Inr [simp]: "and_then (Inr v) f = f v"
  by (simp add: and_then_def)

lemma checkRequiredFields_ok:
  "(checkRequiredFields data fs = Inr ()) = (\<forall>f \<in> set fs. truthy (get_prop data f))"
  by (induction fs) auto

lemma checkRequiredFields_fails:
  "\<exists>f \<in> set fs. \<not> truthy (get_prop data f) \<Longrightarrow>
   \<exists>g \<in> set fs. \<not> truthy (get_prop data g) \<and>
      checkRequiredFields data fs = Inl (Error (''Missing required field: '' @ g))"
proof (induction fs)
  case Nil
  then show ?case by simp
next
  case (Cons f fs)
  show ?case
  proof (cases "truthy (get_prop data f)")
    case True
    with Cons.prems have "\<exists>f \<in> set fs. \<not> truthy (get_prop data f)"
      by auto
    from Cons.IH [OF this] True show ?thesis
      by auto
  next
    case False
    then show ?thesis by auto
  qed
qed

lemma get_prop_delete:
  "f \<noteq> k \<Longrightarrow> get_prop (AList.delete k ob) f = get_prop ob f"
  by (simp add: get_prop_def)

lemma type_not_required: "f \<in> set (required_fields t) \<Longrightarrow> f \<noteq> ''type''"
  by (auto simp: required_fields_def split: if_splits)

lemma required_after_delete:
  "(\<forall>f \<in> set (required_fields t). truthy (get_prop (AList.delete ''type'' bd) f)) =
   (\<forall>f \<in> set (required_fields t). truthy (get_prop bd f))"
  using type_not_required [of _ t] by (auto simp: get_prop_delete)

text \<open>The dispatch on the type.\<close>

lemma validateBooking_bus:
  "get_prop bd ''type'' = JStr ''bus'' \<Longrightarrow>
   validateBooking rt bd = validateBusBooking rt (AList.delete ''type'' bd)"
  by (simp add: validateBooking_def Let_def)

lemma validateBooking_train:
  "get_prop bd ''type'' = JStr ''train'' \<Longrightarrow>
   validateBooking rt bd = validateTrainBooking rt (AList.delete ''type'' bd)"
  by (simp add: validateBooking_def Let_def)

lemma validateBooking_flight:
  "get_prop bd ''type'' = JStr ''flight'' \<Longrightarrow>
   validateBooking rt bd = validateFlightBooking rt (AList.delete ''type'' bd)"
  by (simp add: validateBooking_def Let_def)

text \<open>Each validator starts with the check of its list.\<close>

lemma validators_check_first:
  "checkRequiredFields data (required_fields ''bus'') = Inl e \<Longrightarrow> validateBusBooking rt data = Inl e"
  "checkRequiredFields data (required_fields ''train'') = Inl e \<Longrightarrow> validateTrainBooking rt data = Inl e"
  "checkRequiredFields data (required_fields ''flight'') = Inl e \<Longrightarrow> validateFlightBooking rt data = Inl e"
  by (simp_all add: validateBusBooking_def validateTrainBooking_def validateFlightBooking_def
      required_fields_def)

lemma missing_required_field:
  assumes "get_prop bd ''type'' = JStr t" and "t \<in> set [''bus'', ''train'', ''flight'']"
      and "\<exists>f \<in> set (required_fields t). \<not> truthy (get_prop bd f)"
  shows "\<exists>g \<in> set (required_fields t). \<not> truthy (get_prop bd g) \<and>
           validateBooking rt bd = Inl (Error (''Missing required field: '' @ g))"
proof -
  let ?data = "AList.delete ''type'' bd"
  have "\<exists>f \<in> set (required_fields t). \<not> truthy (get_prop ?data f)"
    using assms(3) required_after_delete [of t bd] by blast
  from checkRequiredFields_fails [OF this]
  obtain g where g: "g \<in> set (required_fields t)" "\<not> truthy (get_prop ?data g)"
     "checkRequiredFields ?data (required_fields t) = Inl (Error (''Missing required field: '' @ g))"
    by blast
  have "\<not> truthy (get_prop bd g)"
    using g(1,2) type_not_required [of g t] by (simp add: get_prop_delete)
  moreover have "validateBooking rt bd = Inl (Error (''Missing required field: '' @ g))"
    using assms(1,2) g(3)
    by (auto simp: validateBooking_bus validateBooking_train validateBooking_flight
        validators_check_first)
  ultimately show ?thesis
    using g(1) by blast
qed

text \<open>
  No other step of a validator reports a missing field: every other message starts
  differently.
\<close>

definition no_missing :: "js_error + 'a \<Rightarrow> bool" where
  "no_missing r = (case r of Inl e \<Rightarrow> \<not> missing_field_error e | Inr v \<Rightarrow> True)"

lemma no_missing_Inr [simp]: "no_missing (Inr v)"
  by (simp add: no_missing_def)

lemma no_missing_and_then:
  "no_missing r \<Longrightarrow> (\<And>v. no_missing (f v)) \<Longrightarrow> no_missing (and_then r f)"
  by (cases r) (simp_all add: no_missing_def)

lemma no_missing_string_method:
  "expr \<in> set [''data.from'', ''data.to'', ''data.time'', ''passenger.name'', ''trainClass'',
                ''flightClass'', ''from'', ''to''] \<Longrightarrow>
   no_missing (call_string_method expr name f v)"
  by (cases v) (auto simp: call_string_method_def no_missing_def missing_field_error_def)

lemma no_missing_trim:
  "no_missing (js_trim ''data.from'' v)" "no_missing (js_trim ''data.to'' v)"
  "no_missing (js_trim ''data.time'' v)" "no_missing (js_trim ''passenger.name'' v)"
  by (simp_all add: js_trim_def no_missing_string_method)

lemma no_missing_lower:
  "no_missing (js_toLowerCase ''trainClass'' v)" "no_missing (js_toLowerCase ''flightClass'' v)"
  "no_missing (js_toLowerCase ''from'' v)" "no_missing (js_toLowerCase ''to'' v)"
  by (simp_all add: js_toLowerCase_def no_missing_string_method)

lemma no_missing_validateDate: "no_missing (validateDate rt v)"
  by (simp add: validateDate_def no_missing_def missing_field_error_def split: option.splits)

lemma no_missing_validatePassenger: "no_missing (validatePassenger rt p)"
proof (cases p)
  case (JObj ps)
  show ?thesis
  proof (cases "\<not> truthy (get_prop ps ''name'') \<or> \<not> truthy (get_prop ps ''age'')")
    case True
    with JObj show ?thesis
      by (simp add: validatePassenger_def no_missing_def missing_field_error_def)
  next
    case False
    with JObj show ?thesis
      by (simp add: validatePassenger_def no_missing_and_then no_missing_trim)
  qed
qed (simp_all add: validatePassenger_def no_missing_def missing_field_error_def)

lemma no_missing_map_throwing:
  "(\<And>x. no_missing (f x)) \<Longrightarrow> no_missing (map_throwing f xs)"
  by (induction xs) (simp_all add: no_missing_and_then)

lemma no_missing_validatePassengers: "no_missing (validatePassengers rt v)"
proof (cases v)
  case (JArr ps)
  show ?thesis
  proof (cases "ps = []")
    case True
    with JArr show ?thesis
      by (simp add: validatePassengers_def no_missing_def missing_field_error_def)
  next
    case False
    with JArr show ?thesis
      by (simp add: validatePassengers_def no_missing_and_then no_missing_map_throwing
          no_missing_validatePassenger)
  qed
qed (simp_all add: validatePassengers_def no_missing_def missing_field_error_def)

lemma no_missing_trainClass: "no_missing (validateTrainClass rt v)"
  unfolding validateTrainClass_def
proof (rule no_missing_and_then)
  show "no_missing (js_toLowerCase ''trainClass'' v)"
    by (rule no_missing_lower)
next
  fix lower
  show "no_missing (if lower \<notin> set [''sleeper'', ''3ac'', ''2ac'', ''1ac'', ''cc'', ''ec'']
                    then Inl (Error (''Invalid train class: '' @ js_to_string rt v))
                    else Inr lower)"
    by (simp add: no_missing_def missing_field_error_def)
qed

lemma no_missing_flightClass: "no_missing (validateFlightClass rt v)"
  unfolding validateFlightClass_def
proof (rule no_missing_and_then)
  show "no_missing (js_toLowerCase ''flightClass'' v)"
    by (rule no_missing_lower)
next
  fix lower
  show "no_missing (if lower \<notin> set [''economy'', ''premium-economy'', ''business'', ''first'']
                    then Inl (Error (''Invalid flight class: '' @ js_to_string rt v))
                    else Inr lower)"
    by (simp add: no_missing_def missing_field_error_def)
qed

lemmas no_missing_classes = no_missing_trainClass no_missing_flightClass

lemma no_missing_distance: "no_missing (getDistanceMultiplier a b)"
  by (simp add: getDistanceMultiplier_def no_missing_and_then no_missing_lower)

lemma no_missing_count: "no_missing (passenger_count v)"
  by (cases v) (simp_all add: passenger_count_def no_missing_def missing_field_error_def)

lemma no_missing_prices:
  "no_missing (calculateBusPrice data)" "no_missing (calculateTrainPrice data)"
  "no_missing (calculateFlightPrice data)"
  by (simp_all add: calculateBusPrice_def calculateTrainPrice_def calculateFlightPrice_def
      no_missing_and_then no_missing_distance no_missing_count)

lemma no_missing_durations:
  "no_missing (estimateBusDuration a b)" "no_missing (estimateTrainDuration a b c)"
  "no_missing (estimateFlightDuration a b)"
  by (simp_all add: estimateBusDuration_def estimateTrainDuration_def estimateFlightDuration_def
      no_missing_and_then no_missing_distance)

lemmas no_missing_steps =
  no_missing_and_then no_missing_trim no_missing_validateDate no_missing_validatePassengers
  no_missing_classes no_missing_prices no_missing_durations

lemma no_missing_validators:
  assumes "checkRequiredFields data (required_fields t) = Inr ()"
  shows "t = ''bus'' \<Longrightarrow> no_missing (validateBusBooking rt data)"
    and "t = ''train'' \<Longrightarrow> no_missing (validateTrainBooking rt data)"
    and "t = ''flight'' \<Longrightarrow> no_missing (validateFlightBooking rt data)"
proof -
  assume "t = ''bus''"
  with assms have "checkRequiredFields data [''from'', ''to'', ''date'', ''time'', ''passengers''] = Inr ()"
    by (simp add: required_fields_def)
  then show "no_missing (validateBusBooking rt data)"
    unfolding validateBusBooking_def
    by (simp only: and_then_Inr) (intro no_missing_steps no_missing_Inr)
next
  assume "t = ''train''"
  with assms have "checkRequiredFields data [''from'', ''to'', ''date'', ''time'', ''passengers'', ''class''] = Inr ()"
    by (simp add: required_fields_def)
  then show "no_missing (validateTrainBooking rt data)"
    unfolding validateTrainBooking_def
    by (simp only: and_then_Inr) (intro no_missing_steps no_missing_Inr)
next
  assume "t = ''flight''"
  with assms have "checkRequiredFields data [''from'', ''to'', ''departureDate'', ''passengers'', ''class''] = Inr ()"
    by (simp add: required_fields_def)
  then show "no_missing (validateFlightBooking rt data)"
    unfolding validateFlightBooking_def
    by (simp only: and_then_Inr) (auto intro!: no_missing_steps)
qed

lemma all_required_present:
  assumes "get_prop bd ''type'' = JStr t" and "t \<in> set [''bus'', ''train'', ''flight'']"
      and "\<forall>f \<in> set (required_fields t). truthy (get_prop bd f)"
  shows "no_missing (validateBooking rt bd)"
proof -
  have "checkRequiredFields (AList.delete ''type'' bd) (required_fields t) = Inr ()"
    using assms(3) by (simp add: checkRequiredFields_ok required_after_delete)
  from no_missing_validators [OF this, of rt] assms(1,2) show ?thesis
    by (auto simp: validateBooking_bus validateBooking_train validateBooking_flight)
qed


lemma example_bus_valid:
  "validateBooking example_runtime test_bus_booking =
     Inr [(''type'', JStr ''bus''), (''from'', JStr ''Delhi''), (''to'', JStr ''Mumbai''),
          (''date'', JStr ''2025-07-01''), (''time'', JStr ''10:00''),
          (''passengers'', JArr [JObj [(''name'', JStr ''Test User''), (''age'', JNum 30),
                                      (''type'', JStr ''adult''), (''id'', JNull)]]),
          (''seatType'', JStr ''standard''), (''operatorPreference'', JStr ''any''),
          (''estimatedPrice'', JNum 750), (''duration'', JStr ''12 hours'')]"
  by code_simp



section \<open>Dates\<close>

lemma int_div_less_iff:
  assumes "0 < (k :: int)"
  shows "(a div k < q) = (a < q * k)"
proof
  assume "a div k < q"
  then have "a div k + 1 \<le> q" by simp
  then have "(a div k + 1) * k \<le> q * k"
    using assms by (simp add: mult_right_mono)
  moreover have "a < (a div k + 1) * k"
  proof -
    have "a = k * (a div k) + a mod k" by simp
    moreover have "a mod k < k" using assms by simp
    ultimately have "a < k * (a div k) + k" by linarith
    then show ?thesis by (simp add: algebra_simps)
  qed
  ultimately show "a < q * k" by linarith
next
  assume lt: "a < q * k"
  show "a div k < q"
  proof (rule ccontr)
    assume "\<not> a div k < q"
    then have "q \<le> a div k" by simp
    then have "q * k \<le> (a div k) * k"
      using assms by (simp add: mult_right_mono)
    moreover have "(a div k) * k \<le> a"
    proof -
      have "a = k * (a div k) + a mod k" by simp
      moreover have "0 \<le> a mod k" using assms by simp
      ultimately have "k * (a div k) \<le> a" by linarith
      then show ?thesis by (simp add: mult.commute)
    qed
    ultimately show False using lt by linarith
  qed
qed

text \<open>
  \<open>date < today\<close> compares the date with local midnight of today. In a zone with one
  fixed offset it says that the date falls on an earlier local day than now.
\<close>

lemma before_today_fixed_offset:
  assumes "\<forall>t u. LocalTZA rt t u = c"
  shows "(d < start_of_today rt) = ((d + c) div ms_per_day < (now_ms rt + c) div ms_per_day)"
proof -
  have "(d < start_of_today rt) = (d + c < (now_ms rt + c) div ms_per_day * ms_per_day)"
    using assms by (auto simp: start_of_today_def UTC_def LocalTime_def)
  also have "\<dots> = ((d + c) div ms_per_day < (now_ms rt + c) div ms_per_day)"
    by (rule int_div_less_iff [symmetric]) (simp add: ms_per_day_def)
  finally show ?thesis .
qed

lemma validateDate_past:
  "Date_parse rt v = Some d \<Longrightarrow> d < start_of_today rt \<Longrightarrow>
   validateDate rt v = Inl (Error ''Booking date cannot be in the past'')"
  by (simp add: validateDate_def)

lemma validateDate_invalid:
  "Date_parse rt (JStr s) = None \<Longrightarrow>
   validateDate rt (JStr s) = Inl (Error (''Invalid date format: '' @ s))"
  by (simp add: validateDate_def js_to_string_def)

lemma validateDate_ok:
  "validateDate rt v = Inr x \<Longrightarrow>
   \<exists>d. Date_parse rt v = Some d \<and> start_of_today rt \<le> d \<and> x = iso_date d"
  by (auto simp: validateDate_def split: option.splits if_splits)

text \<open>The shape of the date \<open>toISOString\<close> prints, for a four-digit year.\<close>

lemma is_digit_digit_char: "is_digit (digit_char n)"
proof -
  have "(48 + n mod 10) mod 256 = 48 + n mod 10"
    by (rule mod_less) (simp add: less_le_trans [OF add_strict_left_mono [OF mod_less_divisor]])
  then show ?thesis
    by (simp add: is_digit_def digit_char_def)
qed

lemma iso_date_shape:
  assumes "0 \<le> utc_year d" and "utc_year d \<le> 9999"
  shows "is_YYYY_MM_DD (iso_date d)"
proof -
  obtain y m dd where c: "civil_from_days (d div ms_per_day) = (y, m, dd)"
    by (cases "civil_from_days (d div ms_per_day)")
  with assms have "0 \<le> y" "y \<le> 9999"
    by (simp_all add: utc_year_def)
  with c show ?thesis
    by (simp add: iso_date_def iso_year_def pad4_def pad2_def digit_at_def is_YYYY_MM_DD_def
        is_digit_digit_char)
qed


text \<open>Up to the date, and what an accepted booking carries.\<close>

lemma and_then_Inr_iff: "(and_then r f = Inr v) = (\<exists>x. r = Inr x \<and> f x = Inr v)"
  by (cases r) simp_all

lemma trim_string: "js_trim expr (JStr s) = Inr (trim s)"
  by (simp add: js_trim_def call_string_method_def)

lemma date_error_surfaces:
  assumes "get_prop bd ''type'' = JStr t" and "t \<in> set [''bus'', ''train'', ''flight'']"
      and "\<forall>f \<in> set (required_fields t). truthy (get_prop bd f)"
      and "get_prop bd ''from'' = JStr a" and "get_prop bd ''to'' = JStr b"
      and "validateDate rt (get_prop bd (date_field t)) = Inl e"
  shows "validateBooking rt bd = Inl e"
proof -
  let ?data = "AList.delete ''type'' bd"
  have chk: "checkRequiredFields ?data (required_fields t) = Inr ()"
    using assms(3) by (simp add: checkRequiredFields_ok required_after_delete)
  have props: "get_prop ?data ''from'' = JStr a" "get_prop ?data ''to'' = JStr b"
       "get_prop ?data (date_field t) = get_prop bd (date_field t)"
    using assms(4,5) by (simp_all add: get_prop_delete date_field_def)
  consider "t = ''bus''" | "t = ''train''" | "t = ''flight''"
    using assms(2) by auto
  then show ?thesis
  proof cases
    case 1
    with chk props assms(6) have "validateBusBooking rt ?data = Inl e"
      by (simp add: validateBusBooking_def required_fields_def date_field_def trim_string)
    with 1 assms(1) show ?thesis by (simp add: validateBooking_bus)
  next
    case 2
    with chk props assms(6) have "validateTrainBooking rt ?data = Inl e"
      by (simp add: validateTrainBooking_def required_fields_def date_field_def trim_string)
    with 2 assms(1) show ?thesis by (simp add: validateBooking_train)
  next
    case 3
    with chk props assms(6) have "validateFlightBooking rt ?data = Inl e"
      by (simp add: validateFlightBooking_def required_fields_def date_field_def trim_string)
    with 3 assms(1) show ?thesis by (simp add: validateBooking_flight)
  qed
qed

lemma accepted_bus:
  "validateBusBooking rt data = Inr v \<Longrightarrow>
   \<exists>x. validateDate rt (get_prop data ''date'') = Inr x \<and> get_prop v ''date'' = JStr x"
  by (auto simp: validateBusBooking_def and_then_Inr_iff get_prop_def)

lemma accepted_train:
  "validateTrainBooking rt data = Inr v \<Longrightarrow>
   \<exists>x. validateDate rt (get_prop data ''date'') = Inr x \<and> get_prop v ''date'' = JStr x"
  by (auto simp: validateTrainBooking_def and_then_Inr_iff get_prop_def)

lemma accepted_flight:
  "validateFlightBooking rt data = Inr v \<Longrightarrow>
   \<exists>x. validateDate rt (get_prop data ''departureDate'') = Inr x \<and> get_prop v ''departureDate'' = JStr x"
  by (auto simp: validateFlightBooking_def and_then_Inr_iff get_prop_def)

lemma accepted_date:
  assumes "get_prop bd ''type'' = JStr t" and "t \<in> set [''bus'', ''train'', ''flight'']"
      and "validateBooking rt bd = Inr v"
  shows "\<exists>x. validateDate rt (get_prop bd (date_field t)) = Inr x \<and> get_prop v (date_field t) = JStr x"
proof -
  have d: "get_prop (AList.delete ''type'' bd) (date_field t) = get_prop bd (date_field t)"
    by (simp add: get_prop_delete date_field_def)
  consider "t = ''bus''" | "t = ''train''" | "t = ''flight''"
    using assms(2) by auto
  then show ?thesis
  proof cases
    case 1
    with assms(1,3) have "validateBusBooking rt (AList.delete ''type'' bd) = Inr v"
      by (simp add: validateBooking_bus)
    from accepted_bus [OF this] d 1 show ?thesis
      by (simp add: date_field_def)
  next
    case 2
    with assms(1,3) have "validateTrainBooking rt (AList.delete ''type'' bd) = Inr v"
      by (simp add: validateBooking_train)
    from accepted_train [OF this] d 2 show ?thesis
      by (simp add: date_field_def)
  next
    case 3
    with assms(1,3) have "validateFlightBooking rt (AList.delete ''type'' bd) = Inr v"
      by (simp add: validateBooking_flight)
    from accepted_flight [OF this] d 3 show ?thesis
      by (simp add: date_field_def)
  qed
qed

text \<open>
  What the validators do with the date, in general: with all required fields present and
  origin and destination strings, a date before local midnight of today is rejected as
  past and a string that does not parse as invalid; an accepted booking carries the UTC
  date of the parsed time as \<open>toISOString\<close> prints it.
\<close>

lemma dates_checked:
  assumes t: "get_prop bd ''type'' = JStr t" "t \<in> set [''bus'', ''train'', ''flight'']"
  shows "(\<forall>f \<in> set (required_fields t). truthy (get_prop bd f)) \<Longrightarrow>
         get_prop bd ''from'' = JStr a \<Longrightarrow> get_prop bd ''to'' = JStr b \<Longrightarrow>
         Date_parse rt (get_prop bd (date_field t)) = Some d \<Longrightarrow> d < start_of_today rt \<Longrightarrow>
         validateBooking rt bd = Inl (Error ''Booking date cannot be in the past'')"
    and "(\<forall>f \<in> set (required_fields t). truthy (get_prop bd f)) \<Longrightarrow>
         get_prop bd ''from'' = JStr a \<Longrightarrow> get_prop bd ''to'' = JStr b \<Longrightarrow>
         get_prop bd (date_field t) = JStr s \<Longrightarrow> Date_parse rt (JStr s) = None \<Longrightarrow>
         validateBooking rt bd = Inl (Error (''Invalid date format: '' @ s))"
    and "validateBooking rt bd = Inr v \<Longrightarrow>
         \<exists>d. Date_parse rt (get_prop bd (date_field t)) = Some d \<and> start_of_today rt \<le> d \<and>
             get_prop v (date_field t) = JStr (iso_date d)"
proof -
  show "validateBooking rt bd = Inl (Error ''Booking date cannot be in the past'')"
    if "\<forall>f \<in> set (required_fields t). truthy (get_prop bd f)"
      and "get_prop bd ''from'' = JStr a" and "get_prop bd ''to'' = JStr b"
      and "Date_parse rt (get_prop bd (date_field t)) = Some d" and "d < start_of_today rt"
  proof -
    from that(4,5) have "validateDate rt (get_prop bd (date_field t)) =
                           Inl (Error ''Booking date cannot be in the past'')"
      by (rule validateDate_past)
    with t that(1,2,3) show ?thesis
      by (intro date_error_surfaces [where t = t and a = a and b = b]) simp_all
  qed
  show "validateBooking rt bd = Inl (Error (''Invalid date format: '' @ s))"
    if "\<forall>f \<in> set (required_fields t). truthy (get_prop bd f)"
      and "get_prop bd ''from'' = JStr a" and "get_prop bd ''to'' = JStr b"
      and "get_prop bd (date_field t) = JStr s" and "Date_parse rt (JStr s) = None"
  proof -
    from that(4,5) have "validateDate rt (get_prop bd (date_field t)) =
                           Inl (Error (''Invalid date format: '' @ s))"
      by (simp add: validateDate_invalid)
    with t that(1,2,3) show ?thesis
      by (intro date_error_surfaces [where t = t and a = a and b = b]) simp_all
  qed
  show "\<exists>d. Date_parse rt (get_prop bd (date_field t)) = Some d \<and> start_of_today rt \<le> d \<and>
             get_prop v (date_field t) = JStr (iso_date d)"
    if "validateBooking rt bd = Inr v"
  proof -
    from t that obtain x where x: "validateDate rt (get_prop bd (date_field t)) = Inr x"
        "get_prop v (date_field t) = JStr x"
      using accepted_date [of bd t rt v] by auto
    from validateDate_ok [OF x(1)] x(2) show ?thesis
      by auto
  qed
qed

text \<open>
  At the example runtime: the day before is rejected as past and a word as invalid; an
  origin that is not a string fails at its \<open>trim\<close>, before the date is looked at.
\<close>

lemma example_today: "start_of_today example_runtime = 1751308200000"
  by (simp add: start_of_today_def UTC_def LocalTime_def example_runtime_def ms_per_day_def)

lemma example_past_rejected:
  "validateBooking example_runtime bus_yesterday = Inl (Error ''Booking date cannot be in the past'')"
proof -
  have "Date_parse example_runtime (get_prop bus_yesterday (date_field ''bus'')) = Some 1751241600000"
    by (simp add: bus_yesterday_def get_prop_def date_field_def example_runtime_def)
  moreover have "(1751241600000 :: int) < start_of_today example_runtime"
    by (simp add: example_today)
  moreover have "get_prop bus_yesterday ''type'' = JStr ''bus''"
    "\<forall>f \<in> set (required_fields ''bus''). truthy (get_prop bus_yesterday f)"
    "get_prop bus_yesterday ''from'' = JStr ''Delhi''" "get_prop bus_yesterday ''to'' = JStr ''Mumbai''"
    by (simp_all add: bus_yesterday_def get_prop_def required_fields_def)
  ultimately show ?thesis
    by (intro dates_checked(1) [where t = "''bus''" and a = "''Delhi''" and b = "''Mumbai''"
                                  and d = 1751241600000]) simp_all
qed

lemma example_word_rejected:
  "validateBooking example_runtime bus_tomorrow_word = Inl (Error ''Invalid date format: tomorrow'')"
proof -
  have "get_prop bus_tomorrow_word (date_field ''bus'') = JStr ''tomorrow''"
    "Date_parse example_runtime (JStr ''tomorrow'') = None"
    "get_prop bus_tomorrow_word ''type'' = JStr ''bus''"
    "\<forall>f \<in> set (required_fields ''bus''). truthy (get_prop bus_tomorrow_word f)"
    "get_prop bus_tomorrow_word ''from'' = JStr ''Delhi''" "get_prop bus_tomorrow_word ''to'' = JStr ''Mumbai''"
    by (simp_all add: bus_tomorrow_word_def get_prop_def required_fields_def date_field_def
        example_runtime_def)
  with dates_checked(2) [where bd = bus_tomorrow_word and t = "''bus''" and a = "''Delhi''"
         and b = "''Mumbai''" and s = "''tomorrow''" and rt = example_runtime]
  show ?thesis
    by simp
qed

lemma example_origin_not_a_string:
  "validateBooking example_runtime (AList.update ''from'' (JNum 123) bus_yesterday) =
     Inl (Error ''data.from.trim is not a function'')"
  by code_simp

text \<open>
  On the day the clocks go forward in New York, at noon UTC, local midnight is 05:00 UTC:
  the offset in force at midnight, not the one in force now.
\<close>

lemma example_spring_forward:
  "start_of_today new_york_runtime = 1741496400000"
  "validateDate new_york_runtime (JStr ''2025-03-09T04:30:00Z'') =
     Inl (Error ''Booking date cannot be in the past'')"
  by (simp_all add: validateDate_def start_of_today_def UTC_def LocalTime_def new_york_runtime_def
      example_runtime_def ms_per_day_def)

section \<open>The form of an accepted date\<close>

text \<open>
  Claim C10, where the code departs from it. A bus booking with every required field
  present and the date \<open>+010000-01-01\<close>, which parses and is not in the past, is
  accepted, and the date it carries is \<open>+010000-01-01\<close>: the date part of
  \<open>toISOString\<close>, which prints a year beyond 9999 with a sign and six digits. That is
  not of the form \<open>YYYY-MM-DD\<close> the comment on the \<open>return\<close> of \<open>validateDate\<close>
  promises.
\<close>

theorem expanded_year_is_not_normalised:
  "validateBooking example_runtime bus_year_10000 =
     Inr [(''type'', JStr ''bus''), (''from'', JStr ''Delhi''), (''to'', JStr ''Mumbai''),
          (''date'', JStr ''+010000-01-01''), (''time'', JStr ''10:00''),
          (''passengers'', JArr [JObj [(''name'', JStr ''Test User''), (''age'', JNum 30),
                                      (''type'', JStr ''adult''), (''id'', JNull)]]),
          (''seatType'', JStr ''standard''), (''operatorPreference'', JStr ''any''),
          (''estimatedPrice'', JNum 750), (''duration'', JStr ''12 hours'')]
   \<and> \<not> is_YYYY_MM_DD ''+010000-01-01''"
  by code_simp
section \<open>Storage: merging, lookup and the file's round trip\<close>

lemma get_prop_update:
  "get_prop (AList.update k v al) k' = (if k' = k then v else get_prop al k')"
  by (simp add: get_prop_def update_conv')

lemma get_prop_spread:
  "get_prop (spread a b) k = (case map_of (rev b) k of None \<Rightarrow> get_prop a k | Some v \<Rightarrow> v)"
proof (induction b arbitrary: a rule: rev_induct)
  case Nil
  show ?case by (simp add: spread_def)
next
  case (snoc p b)
  have "spread a (b @ [p]) = AList.update (fst p) (snd p) (spread a b)"
    by (simp add: spread_def)
  with snoc show ?case
    by (cases p) (simp add: get_prop_update)
qed

lemma get_prop_merged_booking:
  "get_prop (merged_booking now booking updates) k =
     (if k = ''updatedAt'' then JStr now
      else case map_of (rev updates) k of None \<Rightarrow> get_prop booking k | Some v \<Rightarrow> v)"
  by (simp add: merged_booking_def get_prop_spread)

lemma find_findIndex: "find p xs = map_option (\<lambda>i. xs ! i) (findIndex p xs)"
  by (induction xs) (simp_all add: option.map_comp comp_def)

lemma findIndex_Some:
  "findIndex p xs = Some i \<Longrightarrow> i < length xs \<and> p (xs ! i) \<and> (\<forall>j<i. \<not> p (xs ! j))"
proof (induction xs arbitrary: i)
  case Nil
  then show ?case by simp
next
  case (Cons x xs)
  show ?case
  proof (cases "p x")
    case True
    with Cons.prems show ?thesis by simp
  next
    case False
    with Cons.prems obtain i' where i': "findIndex p xs = Some i'" "i = Suc i'"
      by auto
    from Cons.IH [OF i'(1)] False i'(2) show ?thesis
      by (auto simp: less_Suc_eq_0_disj)
  qed
qed

lemma findIndex_SomeI:
  "i < length xs \<Longrightarrow> p (xs ! i) \<Longrightarrow> \<forall>j<i. \<not> p (xs ! j) \<Longrightarrow> findIndex p xs = Some i"
proof (induction xs arbitrary: i)
  case Nil
  then show ?case by simp
next
  case (Cons x xs)
  show ?case
  proof (cases i)
    case 0
    with Cons.prems show ?thesis by simp
  next
    case (Suc i')
    with Cons.prems have "\<not> p x" by auto
    moreover from Suc Cons.prems have "findIndex p xs = Some i'"
      by (intro Cons.IH) auto
    ultimately show ?thesis using Suc by simp
  qed
qed

lemma updateBooking_file_mode:
  "\<not> isConnected st \<Longrightarrow> updateBooking now drv st bid updates = json_updateBooking now st bid updates"
  by (auto simp: updateBooking_def useStorage_def split: prod.splits)

lemma saveBooking_file_mode:
  "\<not> isConnected st \<Longrightarrow> saveBooking drv st booking = json_saveBooking st booking"
  by (auto simp: saveBooking_def useStorage_def split: prod.splits)

lemma json_updateBooking_found:
  assumes "findIndex (has_id bid) (read_bookings st) = Some i" and "writable st"
  shows "json_updateBooking now st bid updates =
           (Some (merged_booking now (read_bookings st ! i) updates),
            st\<lparr>bookingsFile :=
                 Some (map jsonify_obj ((read_bookings st)[i := merged_booking now (read_bookings st ! i) updates]))\<rparr>)"
  using assms by (simp add: json_updateBooking_def writeFile_def Let_def)

lemma jsonify_not_undefined: "jsonify v \<noteq> JUndefined"
  by (cases v) simp_all

lemma jsonify_idem: "jsonify (jsonify v) = jsonify v"
proof (induction v rule: jsonify.induct)
  case (1 ps)
  then show ?case
    by (simp add: jsonify_not_undefined comp_def)
next
  case (2 vs)
  then show ?case by simp
qed simp_all

lemma jsonify_obj_idem: "jsonify_obj (jsonify_obj ob) = jsonify_obj ob"
  by (simp add: jsonify_obj_def jsonify_not_undefined comp_def jsonify_idem)

lemma strict_eq_same: "strict_eq a b \<Longrightarrow> a = b"
  by (induction a b rule: strict_eq.induct) simp_all

lemma strict_eq_jsonify: "strict_eq a b \<Longrightarrow> a \<noteq> JUndefined \<Longrightarrow> jsonify a = a"
  by (induction a b rule: strict_eq.induct) simp_all

lemma map_of_jsonify_obj:
  "map_of ob k = Some v \<Longrightarrow> v \<noteq> JUndefined \<Longrightarrow> map_of (jsonify_obj ob) k = Some (jsonify v)"
  by (induction ob) (auto simp: jsonify_obj_def)

lemma get_prop_jsonify_obj:
  "get_prop ob k \<noteq> JUndefined \<Longrightarrow> get_prop (jsonify_obj ob) k = jsonify (get_prop ob k)"
  by (auto simp: get_prop_def map_of_jsonify_obj split: option.splits)

lemma keys_jsonify_obj:
  "\<forall>p \<in> set ob. snd p \<noteq> JUndefined \<Longrightarrow> map fst (jsonify_obj ob) = map fst ob"
  by (induction ob) (auto simp: jsonify_obj_def)

lemma fixpoint_defined:
  assumes "jsonify_obj ob = ob"
  shows "\<forall>p \<in> set ob. snd p \<noteq> JUndefined"
proof
  fix p
  assume "p \<in> set ob"
  with assms have "p \<in> set (jsonify_obj ob)" by simp
  then show "snd p \<noteq> JUndefined"
    by (auto simp: jsonify_obj_def jsonify_not_undefined)
qed

lemma update_defined:
  "\<forall>p \<in> set al. snd p \<noteq> JUndefined \<Longrightarrow> v \<noteq> JUndefined \<Longrightarrow>
     \<forall>p \<in> set (AList.update k v al). snd p \<noteq> JUndefined"
  by (induction al) auto

lemma spread_defined:
  "\<forall>p \<in> set a. snd p \<noteq> JUndefined \<Longrightarrow> \<forall>p \<in> set b. snd p \<noteq> JUndefined \<Longrightarrow>
     \<forall>p \<in> set (spread a b). snd p \<noteq> JUndefined"
proof (induction b arbitrary: a)
  case Nil
  then show ?case by (simp add: spread_def)
next
  case (Cons p b)
  have s: "spread a (p # b) = spread (AList.update (fst p) (snd p) a) b"
    by (simp add: spread_def)
  have v: "snd p \<noteq> JUndefined"
    using Cons.prems(2) by simp
  have u: "\<forall>q \<in> set (AList.update (fst p) (snd p) a). snd q \<noteq> JUndefined"
    using Cons.prems(1) v by (rule update_defined)
  have r: "\<forall>q \<in> set b. snd q \<noteq> JUndefined"
    using Cons.prems(2) by simp
  show ?case
    unfolding s using u r by (rule Cons.IH)
qed

lemma cancellation_defined: "\<forall>p \<in> set (cancellation now reason). snd p \<noteq> JUndefined"
  by (simp add: cancellation_def)

lemma merged_defined:
  assumes "\<forall>p \<in> set b. snd p \<noteq> JUndefined" and "\<forall>p \<in> set u. snd p \<noteq> JUndefined"
  shows "\<forall>p \<in> set (merged_booking now b u). snd p \<noteq> JUndefined"
proof -
  have "\<forall>p \<in> set (spread b u). snd p \<noteq> JUndefined"
    using assms by (rule spread_defined)
  moreover have "\<forall>p \<in> set [(''updatedAt'', JStr now)]. snd p \<noteq> JUndefined"
    by simp
  ultimately show ?thesis
    unfolding merged_booking_def by (rule spread_defined)
qed

lemma defined_get_prop:
  "\<forall>p \<in> set ob. snd p \<noteq> JUndefined \<Longrightarrow> get_prop ob k = JUndefined \<Longrightarrow> k \<notin> fst ` set ob"
  by (induction ob) (auto simp: get_prop_def split: if_splits)

lemma absent_get_prop: "k \<notin> fst ` set ob \<Longrightarrow> get_prop ob k = JUndefined"
  by (induction ob) (auto simp: get_prop_def)

lemma get_prop_jsonify_defined:
  assumes "\<forall>p \<in> set ob. snd p \<noteq> JUndefined"
  shows "get_prop (jsonify_obj ob) k = (if get_prop ob k = JUndefined then JUndefined else jsonify (get_prop ob k))"
proof (cases "get_prop ob k = JUndefined")
  case True
  with assms have "k \<notin> fst ` set ob" by (rule defined_get_prop)
  then have "k \<notin> set (map fst (jsonify_obj ob))"
    using assms by (simp add: keys_jsonify_obj)
  then have "get_prop (jsonify_obj ob) k = JUndefined"
    by (intro absent_get_prop) simp
  with True show ?thesis by simp
next
  case False
  then show ?thesis by (simp add: get_prop_jsonify_obj)
qed

lemma keys_update_present:
  "k \<in> fst ` set al \<Longrightarrow> map fst (AList.update k v al) = map fst al"
  by (simp add: update_keys)

lemma keys_spread_present:
  "fst ` set b \<subseteq> fst ` set a \<Longrightarrow> map fst (spread a b) = map fst a"
proof (induction b arbitrary: a)
  case Nil
  show ?case by (simp add: spread_def)
next
  case (Cons p b)
  have s: "spread a (p # b) = spread (AList.update (fst p) (snd p) a) b"
    by (simp add: spread_def)
  have k: "map fst (AList.update (fst p) (snd p) a) = map fst a"
    using Cons.prems by (intro keys_update_present) simp
  then have "fst ` set (AList.update (fst p) (snd p) a) = fst ` set a"
    by (metis list.set_map)
  with Cons.prems have "map fst (spread (AList.update (fst p) (snd p) a) b) =
                          map fst (AList.update (fst p) (snd p) a)"
    by (intro Cons.IH) simp
  with s k show ?case by simp
qed

lemma keys_spread_subset: "fst ` set b \<subseteq> fst ` set (spread a b)"
  and keys_spread_keep: "fst ` set a \<subseteq> fst ` set (spread a b)"
proof -
  have "fst ` set (spread a b) = fst ` set a \<union> fst ` set b"
  proof (induction b arbitrary: a)
    case Nil
    show ?case by (simp add: spread_def)
  next
    case (Cons p b)
    have "spread a (p # b) = spread (AList.update (fst p) (snd p) a) b"
      by (simp add: spread_def)
    moreover have "fst ` set (AList.update (fst p) (snd p) a) = insert (fst p) (fst ` set a)"
      by (simp add: dom_update)
    ultimately show ?case using Cons.IH by auto
  qed
  then show "fst ` set b \<subseteq> fst ` set (spread a b)" and "fst ` set a \<subseteq> fst ` set (spread a b)"
    by auto
qed

lemma has_id_str: "has_id (JStr s) b = (get_prop b ''bookingId'' = JStr s)"
  by (cases "get_prop b ''bookingId''") (simp_all add: has_id_def)

lemma getBooking_findIndex:
  "getBooking st bid = map_option (\<lambda>i. read_bookings st ! i) (findIndex (has_id bid) (read_bookings st))"
  by (simp add: getBooking_def find_findIndex)

lemma getBooking_Some:
  assumes "getBooking st bid = Some b"
  shows "\<exists>i. findIndex (has_id bid) (read_bookings st) = Some i \<and> read_bookings st ! i = b"
  using assms by (auto simp: getBooking_findIndex)

lemma cancellation_keeps:
  assumes "k \<noteq> ''status''" "k \<noteq> ''cancellationReason''" "k \<noteq> ''cancelledAt''" "k \<noteq> ''updatedAt''"
  shows "get_prop (merged_booking later b (cancellation now reason)) k = get_prop b k"
  using assms by (simp add: get_prop_merged_booking cancellation_def)

lemma cancellation_sets:
  "get_prop (merged_booking later b (cancellation now reason)) ''status'' = JStr ''cancelled''"
  "get_prop (merged_booking later b (cancellation now reason)) ''cancellationReason'' =
     (if reason = JUndefined then JStr ''User cancellation'' else reason)"
  "get_prop (merged_booking later b (cancellation now reason)) ''cancelledAt'' = JStr now"
  "get_prop (merged_booking later b (cancellation now reason)) ''updatedAt'' = JStr later"
  by (simp_all add: get_prop_merged_booking cancellation_def)

lemma merged_keys_cover:
  "fst ` set u \<subseteq> fst ` set (merged_booking now b u)"
  "''updatedAt'' \<in> fst ` set (merged_booking now b u)"
proof -
  have "fst ` set u \<subseteq> fst ` set (spread b u)"
    by (rule keys_spread_subset)
  also have "\<dots> \<subseteq> fst ` set (merged_booking now b u)"
    unfolding merged_booking_def by (rule keys_spread_keep)
  finally show "fst ` set u \<subseteq> fst ` set (merged_booking now b u)" .
  have "fst ` set [(''updatedAt'', JStr now)] \<subseteq> fst ` set (merged_booking now b u)"
    unfolding merged_booking_def by (rule keys_spread_subset)
  then show "''updatedAt'' \<in> fst ` set (merged_booking now b u)"
    by simp
qed

lemma merged_keys_present:
  assumes "fst ` set u \<subseteq> fst ` set b" and "''updatedAt'' \<in> fst ` set b"
  shows "map fst (merged_booking now b u) = map fst b"
proof -
  have 1: "map fst (spread b u) = map fst b"
    using assms(1) by (rule keys_spread_present)
  then have "fst ` set (spread b u) = fst ` set b"
    by (metis list.set_map)
  with assms(2) have "fst ` set [(''updatedAt'', JStr now)] \<subseteq> fst ` set (spread b u)"
    by simp
  then have "map fst (spread (spread b u) [(''updatedAt'', JStr now)]) = map fst (spread b u)"
    by (rule keys_spread_present)
  with 1 show ?thesis
    by (simp add: merged_booking_def)
qed

lemma map_fixpoints: "\<forall>b \<in> set xs. f b = b \<Longrightarrow> map f xs = xs"
  by (induction xs) simp_all

lemma cancel_step:
  assumes nc: "\<not> isConnected st" and w: "writable st"
    and fx: "\<forall>b \<in> set (read_bookings st). jsonify_obj b = b"
    and ix: "findIndex (has_id (JStr bid)) (read_bookings st) = Some i"
    and own: "strict_eq (get_prop (read_bookings st ! i) ''userId'') userId"
  shows "cancel_booking now later drv st bid userId reason =
           (\<lparr>status = 200,
             body = [(''success'', JBool True),
                     (''booking'', JObj (merged_booking later (read_bookings st ! i) (cancellation now reason))),
                     (''message'', JStr ''Booking cancelled successfully'')]\<rparr>,
            st\<lparr>bookingsFile :=
                 Some ((read_bookings st)
                         [i := jsonify_obj (merged_booking later (read_bookings st ! i) (cancellation now reason))])\<rparr>)"
proof -
  have g: "getBooking st (JStr bid) = Some (read_bookings st ! i)"
    using ix by (simp add: getBooking_findIndex)
  have m: "map jsonify_obj (read_bookings st) = read_bookings st"
    using fx by (rule map_fixpoints)
  have u: "updateBooking later drv st (JStr bid) (cancellation now reason) =
             (Some (merged_booking later (read_bookings st ! i) (cancellation now reason)),
              st\<lparr>bookingsFile :=
                   Some ((read_bookings st)
                           [i := jsonify_obj (merged_booking later (read_bookings st ! i) (cancellation now reason))])\<rparr>)"
    using nc ix w by (simp add: updateBooking_file_mode json_updateBooking_found map_update m)
  show ?thesis
    unfolding cancel_booking_def using g own by (simp add: u)
qed

lemma stored_after_update:
  assumes fx: "\<forall>b \<in> set xs. jsonify_obj b = b"
    and ix: "findIndex (has_id (JStr bid)) xs = Some i"
    and id: "get_prop m ''bookingId'' = JStr bid"
  shows "findIndex (has_id (JStr bid)) (xs[i := jsonify_obj m]) = Some i"
    and "\<forall>b \<in> set (xs[i := jsonify_obj m]). jsonify_obj b = b"
    and "xs[i := jsonify_obj m] ! i = jsonify_obj m"
proof -
  from findIndex_Some [OF ix] have i: "i < length xs" and before: "\<forall>j<i. \<not> has_id (JStr bid) (xs ! j)"
    by simp_all
  have "get_prop (jsonify_obj m) ''bookingId'' = JStr bid"
    using id by (simp add: get_prop_jsonify_obj)
  then have "has_id (JStr bid) (xs[i := jsonify_obj m] ! i)"
    using i by (simp add: has_id_str)
  moreover have "\<forall>j<i. \<not> has_id (JStr bid) (xs[i := jsonify_obj m] ! j)"
    using before by simp
  ultimately show "findIndex (has_id (JStr bid)) (xs[i := jsonify_obj m]) = Some i"
    using i by (intro findIndex_SomeI) simp_all
  show "\<forall>b \<in> set (xs[i := jsonify_obj m]). jsonify_obj b = b"
  proof
    fix b
    assume "b \<in> set (xs[i := jsonify_obj m])"
    then have "b = jsonify_obj m \<or> b \<in> set xs"
      using set_update_subset_insert [of xs i "jsonify_obj m"] by auto
    then show "jsonify_obj b = b"
      using fx by (auto simp: jsonify_obj_idem)
  qed
  show "xs[i := jsonify_obj m] ! i = jsonify_obj m"
    using i by simp
qed

lemma stored_owner:
  assumes d: "\<forall>p \<in> set m. snd p \<noteq> JUndefined"
    and own: "strict_eq (get_prop m ''userId'') userId"
  shows "strict_eq (get_prop (jsonify_obj m) ''userId'') userId"
proof (cases "get_prop m ''userId'' = JUndefined")
  case True
  then show ?thesis
    using own by (simp add: get_prop_jsonify_defined [OF d])
next
  case False
  with own have "jsonify (get_prop m ''userId'') = get_prop m ''userId''"
    by (intro strict_eq_jsonify)
  with False own show ?thesis
    by (simp add: get_prop_jsonify_defined [OF d])
qed

lemma cancellation_keys:
  "fst ` set (cancellation now reason) = {''status'', ''cancellationReason'', ''cancelledAt''}"
  by (simp add: cancellation_def)

lemma read_bookings_update: "read_bookings (st\<lparr>bookingsFile := Some xs\<rparr>) = xs"
  by (simp add: read_bookings_def)

lemma cancel_once:
  assumes nc: "\<not> isConnected st" and w: "writable st"
    and fx: "\<forall>b \<in> set (read_bookings st). jsonify_obj b = b"
    and ix: "findIndex (has_id (JStr bid)) (read_bookings st) = Some i"
    and own: "strict_eq (get_prop (read_bookings st ! i) ''userId'') userId"
    and c: "cancel_booking now later drv st bid userId reason = (r, st1)"
  shows "status r = 200"
    and "\<not> isConnected st1" and "writable st1"
    and "\<forall>b \<in> set (read_bookings st1). jsonify_obj b = b"
    and "findIndex (has_id (JStr bid)) (read_bookings st1) = Some i"
    and "strict_eq (get_prop (read_bookings st1 ! i) ''userId'') userId"
    and "get_prop (read_bookings st1 ! i) ''status'' = JStr ''cancelled''"
    and "get_prop (read_bookings st1 ! i) ''cancellationReason'' =
           jsonify (if reason = JUndefined then JStr ''User cancellation'' else reason)"
    and "get_prop (read_bookings st1 ! i) ''cancelledAt'' = JStr now"
    and "fst ` set (cancellation now reason) \<subseteq> fst ` set (read_bookings st1 ! i)"
    and "''updatedAt'' \<in> fst ` set (read_bookings st1 ! i)"
    and "fst ` set (cancellation now reason) \<subseteq> fst ` set (read_bookings st ! i) \<Longrightarrow>
         ''updatedAt'' \<in> fst ` set (read_bookings st ! i) \<Longrightarrow>
         map fst (read_bookings st1 ! i) = map fst (read_bookings st ! i)"
proof -
  let ?xs = "read_bookings st"
  let ?m = "merged_booking later (?xs ! i) (cancellation now reason)"
  from cancel_step [OF nc w fx ix own, of now later drv reason] c
  have r: "r = \<lparr>status = 200,
                 body = [(''success'', JBool True), (''booking'', JObj ?m),
                         (''message'', JStr ''Booking cancelled successfully'')]\<rparr>"
    and s: "st1 = st\<lparr>bookingsFile := Some (?xs[i := jsonify_obj ?m])\<rparr>"
    by simp_all
  from r show "status r = 200" by simp
  from s nc show "\<not> isConnected st1" by simp
  from s w show "writable st1" by simp
  have rb: "read_bookings st1 = ?xs[i := jsonify_obj ?m]"
    unfolding s by (rule read_bookings_update)
  from findIndex_Some [OF ix] have i: "i < length ?xs" and h: "has_id (JStr bid) (?xs ! i)"
    by simp_all
  have id: "get_prop ?m ''bookingId'' = JStr bid"
    using h by (simp add: cancellation_keeps has_id_str)
  show "\<forall>b \<in> set (read_bookings st1). jsonify_obj b = b"
    unfolding rb using fx ix id by (rule stored_after_update(2))
  show "findIndex (has_id (JStr bid)) (read_bookings st1) = Some i"
    unfolding rb using fx ix id by (rule stored_after_update(1))
  have at: "read_bookings st1 ! i = jsonify_obj ?m"
    unfolding rb using fx ix id by (rule stored_after_update(3))
  have "jsonify_obj (?xs ! i) = ?xs ! i"
    using fx i by simp
  then have "\<forall>p \<in> set (?xs ! i). snd p \<noteq> JUndefined"
    by (rule fixpoint_defined)
  then have d: "\<forall>p \<in> set ?m. snd p \<noteq> JUndefined"
    using cancellation_defined by (rule merged_defined)
  have "strict_eq (get_prop ?m ''userId'') userId"
    using own by (simp add: cancellation_keeps)
  with d show "strict_eq (get_prop (read_bookings st1 ! i) ''userId'') userId"
    unfolding at by (rule stored_owner)
  show "get_prop (read_bookings st1 ! i) ''status'' = JStr ''cancelled''"
    unfolding at by (simp add: get_prop_jsonify_obj cancellation_sets)
  show "get_prop (read_bookings st1 ! i) ''cancellationReason'' =
           jsonify (if reason = JUndefined then JStr ''User cancellation'' else reason)"
    unfolding at by (simp add: get_prop_jsonify_obj cancellation_sets)
  show "get_prop (read_bookings st1 ! i) ''cancelledAt'' = JStr now"
    unfolding at by (simp add: get_prop_jsonify_obj cancellation_sets)
  have k: "map fst (jsonify_obj ?m) = map fst ?m"
    using d by (rule keys_jsonify_obj)
  then have ks: "fst ` set (jsonify_obj ?m) = fst ` set ?m"
    by (metis list.set_map)
  show "fst ` set (cancellation now reason) \<subseteq> fst ` set (read_bookings st1 ! i)"
    unfolding at ks by (rule merged_keys_cover(1))
  show "''updatedAt'' \<in> fst ` set (read_bookings st1 ! i)"
    unfolding at ks by (rule merged_keys_cover(2))
  show "map fst (read_bookings st1 ! i) = map fst (?xs ! i)"
    if "fst ` set (cancellation now reason) \<subseteq> fst ` set (?xs ! i)"
      and "''updatedAt'' \<in> fst ` set (?xs ! i)"
    unfolding at k using that by (rule merged_keys_present)
qed

section \<open>Cancelling twice\<close>

text \<open>
  Claim C8, as the code has it. With the flat file as the backend in use and writable,
  two cancellations of the same booking by its owner both answer 200 and both leave the
  stored booking with status \<open>cancelled\<close>. There is no check for a booking that is
  already cancelled: each cancellation overwrites \<open>cancellationReason\<close> and
  \<open>cancelledAt\<close> with the reason and the clock reading of its own request, so after
  the second cancellation the stored metadata are the second request's. They are
  replaced, not appended: the stored booking has the same properties, in the same order,
  after the second cancellation as after the first.
\<close>

theorem repeated_cancellation:
  assumes nc: "\<not> isConnected st" and w: "writable st"
    and fx: "\<forall>b \<in> set (read_bookings st). jsonify_obj b = b"
    and g: "getBooking st (JStr bid) = Some b0"
    and own: "strict_eq (get_prop b0 ''userId'') userId"
    and c1: "cancel_booking now1 later1 drv st bid userId reason1 = (r1, st1)"
    and c2: "cancel_booking now2 later2 drv st1 bid userId reason2 = (r2, st2)"
  shows "status r1 = 200 \<and> status r2 = 200 \<and>
         (\<exists>s1 s2. getBooking st1 (JStr bid) = Some s1 \<and> getBooking st2 (JStr bid) = Some s2 \<and>
            get_prop s1 ''status'' = JStr ''cancelled'' \<and>
            get_prop s2 ''status'' = JStr ''cancelled'' \<and>
            get_prop s1 ''cancellationReason'' =
              jsonify (if reason1 = JUndefined then JStr ''User cancellation'' else reason1) \<and>
            get_prop s1 ''cancelledAt'' = JStr now1 \<and>
            get_prop s2 ''cancellationReason'' =
              jsonify (if reason2 = JUndefined then JStr ''User cancellation'' else reason2) \<and>
            get_prop s2 ''cancelledAt'' = JStr now2 \<and>
            map fst s2 = map fst s1)"
proof -
  from getBooking_Some [OF g] obtain i
    where ix: "findIndex (has_id (JStr bid)) (read_bookings st) = Some i"
      and b0: "read_bookings st ! i = b0"
    by blast
  from own b0 have own0: "strict_eq (get_prop (read_bookings st ! i) ''userId'') userId"
    by simp
  note one = cancel_once [OF nc w fx ix own0 c1]
  note two = cancel_once [OF one(2) one(3) one(4) one(5) one(6) c2]
  have keys: "fst ` set (cancellation now2 reason2) \<subseteq> fst ` set (read_bookings st1 ! i)"
    using one(10) by (simp add: cancellation_keys)
  have same: "map fst (read_bookings st2 ! i) = map fst (read_bookings st1 ! i)"
    using keys one(11) by (rule two(12))
  have g1: "getBooking st1 (JStr bid) = Some (read_bookings st1 ! i)"
    using one(5) by (simp add: getBooking_findIndex)
  have g2: "getBooking st2 (JStr bid) = Some (read_bookings st2 ! i)"
    using two(5) by (simp add: getBooking_findIndex)
  show ?thesis
    using one(1) two(1) g1 g2 one(7) two(7) one(8) one(9) two(8) two(9) same
    by blast
qed

lemma example_stored: "getBooking file_mode (JStr ''NX123456ABCD'') = Some stored_booking"
  by code_simp

lemma example_file_mode:
  "\<not> isConnected file_mode" "writable file_mode"
  "\<forall>b \<in> set (read_bookings file_mode). jsonify_obj b = b"
  "strict_eq (get_prop stored_booking ''userId'') (JStr ''u1'')"
  by (simp_all add: file_mode_def read_bookings_def stored_booking_def jsonify_obj_def get_prop_def)

text \<open>
  The stored booking of \<open>u1\<close>, cancelled on 2 July for a change of plans and again on
  3 July as booked by mistake.
\<close>

theorem repeated_cancellation_witness:
  "status (fst first_cancel) = 200 \<and> status (fst second_cancel) = 200 \<and>
   (\<exists>s1 s2. getBooking (snd first_cancel) (JStr ''NX123456ABCD'') = Some s1 \<and>
            getBooking (snd second_cancel) (JStr ''NX123456ABCD'') = Some s2 \<and>
            get_prop s1 ''status'' = JStr ''cancelled'' \<and>
            get_prop s2 ''status'' = JStr ''cancelled'' \<and>
            get_prop s1 ''cancellationReason'' = JStr ''Change of plans'' \<and>
            get_prop s1 ''cancelledAt'' = JStr ''2025-07-02T10:00:00.000Z'' \<and>
            get_prop s2 ''cancellationReason'' = JStr ''Booked by mistake'' \<and>
            get_prop s2 ''cancelledAt'' = JStr ''2025-07-03T08:30:00.000Z'' \<and>
            map fst s2 = map fst s1)"
  using repeated_cancellation [of file_mode "''NX123456ABCD''" stored_booking "JStr ''u1''"
          "''2025-07-02T10:00:00.000Z''" "''2025-07-02T10:00:00.001Z''" failing_driver
          "JStr ''Change of plans''" "fst first_cancel" "snd first_cancel"
          "''2025-07-03T08:30:00.000Z''" "''2025-07-03T08:30:00.002Z''"
          "JStr ''Booked by mistake''" "fst second_cancel" "snd second_cancel"]
        example_file_mode example_stored
  by (simp add: first_cancel_def [symmetric] second_cancel_def [symmetric])

lemma example_cancelled_twice:
  "getBooking (snd first_cancel) (JStr ''NX123456ABCD'') =
     Some [(''bookingId'', JStr ''NX123456ABCD''), (''userId'', JStr ''u1''), (''type'', JStr ''bus''),
           (''status'', JStr ''cancelled''), (''updatedAt'', JStr ''2025-07-02T10:00:00.001Z''),
           (''cancellationReason'', JStr ''Change of plans''),
           (''cancelledAt'', JStr ''2025-07-02T10:00:00.000Z'')]"
  "getBooking (snd second_cancel) (JStr ''NX123456ABCD'') =
     Some [(''bookingId'', JStr ''NX123456ABCD''), (''userId'', JStr ''u1''), (''type'', JStr ''bus''),
           (''status'', JStr ''cancelled''), (''updatedAt'', JStr ''2025-07-03T08:30:00.002Z''),
           (''cancellationReason'', JStr ''Booked by mistake''),
           (''cancelledAt'', JStr ''2025-07-03T08:30:00.000Z'')]"
  "status (fst first_cancel) = 200" "status (fst second_cancel) = 200"
  by code_simp+

text \<open>
  The metadata after the second cancellation are not those after the first: the reason
  and the time of the first cancellation are lost.
\<close>

theorem second_cancellation_overwrites_counterexample:
  "\<not> (\<forall>now1 later1 now2 later2 drv st bid userId reason1 reason2 r1 st1 r2 st2 s1 s2.
        cancel_booking now1 later1 drv st bid userId reason1 = (r1, st1) \<and>
        cancel_booking now2 later2 drv st1 bid userId reason2 = (r2, st2) \<and>
        status r1 = 200 \<and> status r2 = 200 \<and>
        getBooking st1 (JStr bid) = Some s1 \<and> getBooking st2 (JStr bid) = Some s2 \<longrightarrow>
        get_prop s2 ''cancellationReason'' = get_prop s1 ''cancellationReason'' \<and>
        get_prop s2 ''cancelledAt'' = get_prop s1 ''cancelledAt'')"
proof
  assume a: "\<forall>now1 later1 now2 later2 drv st bid userId reason1 reason2 r1 st1 r2 st2 s1 s2.
        cancel_booking now1 later1 drv st bid userId reason1 = (r1, st1) \<and>
        cancel_booking now2 later2 drv st1 bid userId reason2 = (r2, st2) \<and>
        status r1 = 200 \<and> status r2 = 200 \<and>
        getBooking st1 (JStr bid) = Some s1 \<and> getBooking st2 (JStr bid) = Some s2 \<longrightarrow>
        get_prop s2 ''cancellationReason'' = get_prop s1 ''cancellationReason'' \<and>
        get_prop s2 ''cancelledAt'' = get_prop s1 ''cancelledAt''"
  have 1: "cancel_booking ''2025-07-02T10:00:00.000Z'' ''2025-07-02T10:00:00.001Z'' failing_driver file_mode
             ''NX123456ABCD'' (JStr ''u1'') (JStr ''Change of plans'') = (fst first_cancel, snd first_cancel)"
    by (simp add: first_cancel_def)
  have 2: "cancel_booking ''2025-07-03T08:30:00.000Z'' ''2025-07-03T08:30:00.002Z'' failing_driver
             (snd first_cancel) ''NX123456ABCD'' (JStr ''u1'') (JStr ''Booked by mistake'') =
           (fst second_cancel, snd second_cancel)"
    by (simp add: second_cancel_def)
  from a 1 2 example_cancelled_twice
  have "get_prop [(''bookingId'', JStr ''NX123456ABCD''), (''userId'', JStr ''u1''), (''type'', JStr ''bus''),
           (''status'', JStr ''cancelled''), (''updatedAt'', JStr ''2025-07-03T08:30:00.002Z''),
           (''cancellationReason'', JStr ''Booked by mistake''),
           (''cancelledAt'', JStr ''2025-07-03T08:30:00.000Z'')] ''cancellationReason'' =
        get_prop [(''bookingId'', JStr ''NX123456ABCD''), (''userId'', JStr ''u1''), (''type'', JStr ''bus''),
           (''status'', JStr ''cancelled''), (''updatedAt'', JStr ''2025-07-02T10:00:00.001Z''),
           (''cancellationReason'', JStr ''Change of plans''),
           (''cancelledAt'', JStr ''2025-07-02T10:00:00.000Z'')] ''cancellationReason''"
    by blast
  then show False
    by (simp add: get_prop_def)
qed

section \<open>Updating a booking\<close>

text \<open>
  Claim C7, as the code has it. With the flat file as the backend in use and writable,
  \<open>updateBooking\<close> of an existing booking returns the stored booking with the update's
  properties assigned over it and \<open>updatedAt\<close> set to the time of the update, and writes
  it back in place. A property the update does not carry is unchanged; a property the
  update carries takes the update's value, \<open>bookingId\<close> and \<open>userId\<close> included:
  nothing filters them out of the update.
\<close>

theorem update_merges:
  assumes nc: "\<not> isConnected st" and w: "writable st"
    and g: "getBooking st bid = Some old"
  shows "\<exists>merged i.
           updateBooking now drv st bid updates =
             (Some merged,
              st\<lparr>bookingsFile := Some (map jsonify_obj ((read_bookings st)[i := merged]))\<rparr>) \<and>
           findIndex (has_id bid) (read_bookings st) = Some i \<and> read_bookings st ! i = old \<and>
           get_prop merged ''updatedAt'' = JStr now \<and>
           (\<forall>k. k \<noteq> ''updatedAt'' \<and> k \<notin> fst ` set updates \<longrightarrow> get_prop merged k = get_prop old k) \<and>
           (\<forall>k v. k \<noteq> ''updatedAt'' \<and> map_of (rev updates) k = Some v \<longrightarrow> get_prop merged k = v)"
proof -
  from getBooking_Some [OF g] obtain i
    where ix: "findIndex (has_id bid) (read_bookings st) = Some i"
      and old: "read_bookings st ! i = old"
    by blast
  let ?m = "merged_booking now old updates"
  have u: "updateBooking now drv st bid updates =
             (Some ?m, st\<lparr>bookingsFile := Some (map jsonify_obj ((read_bookings st)[i := ?m]))\<rparr>)"
    using nc ix w old by (simp add: updateBooking_file_mode json_updateBooking_found)
  have a: "get_prop ?m ''updatedAt'' = JStr now"
    by (simp add: get_prop_merged_booking)
  have b: "\<forall>k. k \<noteq> ''updatedAt'' \<and> k \<notin> fst ` set updates \<longrightarrow> get_prop ?m k = get_prop old k"
  proof (intro allI impI)
    fix k
    assume k: "k \<noteq> ''updatedAt'' \<and> k \<notin> fst ` set updates"
    then have "map_of (rev updates) k = None"
      by (simp add: map_of_eq_None_iff)
    with k show "get_prop ?m k = get_prop old k"
      by (simp add: get_prop_merged_booking)
  qed
  have c: "\<forall>k v. k \<noteq> ''updatedAt'' \<and> map_of (rev updates) k = Some v \<longrightarrow> get_prop ?m k = v"
    by (simp add: get_prop_merged_booking)
  from u ix old a b c show ?thesis
    by blast
qed

text \<open>An update that carries \<open>userId\<close> hands the stored booking of \<open>u1\<close> to \<open>u2\<close>.\<close>

lemma example_reassigned:
  "updateBooking ''2025-07-02T10:00:00.000Z'' failing_driver file_mode (JStr ''NX123456ABCD'')
      [(''userId'', JStr ''u2'')] =
   (Some [(''bookingId'', JStr ''NX123456ABCD''), (''userId'', JStr ''u2''), (''type'', JStr ''bus''),
          (''status'', JStr ''confirmed''), (''updatedAt'', JStr ''2025-07-02T10:00:00.000Z'')],
    \<lparr>isConnected = False,
     bookingsFile = Some
       [[(''bookingId'', JStr ''NX123456ABCD''), (''userId'', JStr ''u2''), (''type'', JStr ''bus''),
         (''status'', JStr ''confirmed''), (''updatedAt'', JStr ''2025-07-02T10:00:00.000Z'')]],
     writable = True\<rparr>)"
  by code_simp

theorem update_merges_witness:
  "\<exists>merged. fst (updateBooking ''2025-07-02T10:00:00.000Z'' failing_driver file_mode (JStr ''NX123456ABCD'')
                   [(''status'', JStr ''completed'')]) = Some merged \<and>
     get_prop merged ''updatedAt'' = JStr ''2025-07-02T10:00:00.000Z'' \<and>
     get_prop merged ''status'' = JStr ''completed'' \<and>
     get_prop merged ''bookingId'' = JStr ''NX123456ABCD'' \<and>
     get_prop merged ''userId'' = JStr ''u1''"
proof -
  from update_merges [of file_mode "JStr ''NX123456ABCD''" stored_booking
         "''2025-07-02T10:00:00.000Z''" failing_driver "[(''status'', JStr ''completed'')]"]
       example_file_mode(1,2) example_stored
  obtain merged i where
    u: "updateBooking ''2025-07-02T10:00:00.000Z'' failing_driver file_mode (JStr ''NX123456ABCD'')
          [(''status'', JStr ''completed'')] =
        (Some merged,
         file_mode\<lparr>bookingsFile := Some (map jsonify_obj ((read_bookings file_mode)[i := merged]))\<rparr>)"
    and t: "get_prop merged ''updatedAt'' = JStr ''2025-07-02T10:00:00.000Z''"
    and keep: "\<forall>k. k \<noteq> ''updatedAt'' \<and> k \<notin> fst ` set [(''status'', JStr ''completed'')] \<longrightarrow>
                 get_prop merged k = get_prop stored_booking k"
    and take: "\<forall>k v. k \<noteq> ''updatedAt'' \<and> map_of (rev [(''status'', JStr ''completed'')]) k = Some v \<longrightarrow>
                 get_prop merged k = v"
    by blast
  from keep have "get_prop merged ''bookingId'' = get_prop stored_booking ''bookingId''"
    and "get_prop merged ''userId'' = get_prop stored_booking ''userId''"
    by simp_all
  then have "get_prop merged ''bookingId'' = JStr ''NX123456ABCD''"
    and "get_prop merged ''userId'' = JStr ''u1''"
    by (simp_all add: stored_booking_def get_prop_def)
  moreover from take have "get_prop merged ''status'' = JStr ''completed''"
    by simp
  moreover from u have "fst (updateBooking ''2025-07-02T10:00:00.000Z'' failing_driver file_mode
                               (JStr ''NX123456ABCD'') [(''status'', JStr ''completed'')]) = Some merged"
    by simp
  ultimately show ?thesis
    using t by blast
qed

theorem update_reassigns_owner_counterexample:
  "\<not> (\<forall>now drv st bid updates old new st1.
        getBooking st bid = Some old \<and> updateBooking now drv st bid updates = (Some new, st1) \<longrightarrow>
        (\<exists>kept. getBooking st1 bid = Some kept \<and>
           get_prop kept ''bookingId'' = get_prop old ''bookingId'' \<and>
           get_prop kept ''userId'' = get_prop old ''userId''))"
proof
  assume "\<forall>now drv st bid updates old new st1.
        getBooking st bid = Some old \<and> updateBooking now drv st bid updates = (Some new, st1) \<longrightarrow>
        (\<exists>kept. getBooking st1 bid = Some kept \<and>
           get_prop kept ''bookingId'' = get_prop old ''bookingId'' \<and>
           get_prop kept ''userId'' = get_prop old ''userId'')"
  with example_stored example_reassigned
  obtain kept where
    k: "getBooking \<lparr>isConnected = False,
          bookingsFile = Some
            [[(''bookingId'', JStr ''NX123456ABCD''), (''userId'', JStr ''u2''), (''type'', JStr ''bus''),
              (''status'', JStr ''confirmed''), (''updatedAt'', JStr ''2025-07-02T10:00:00.000Z'')]],
          writable = True\<rparr> (JStr ''NX123456ABCD'') = Some kept"
    and o: "get_prop kept ''userId'' = get_prop stored_booking ''userId''"
    by blast
  have "getBooking \<lparr>isConnected = False,
          bookingsFile = Some
            [[(''bookingId'', JStr ''NX123456ABCD''), (''userId'', JStr ''u2''), (''type'', JStr ''bus''),
              (''status'', JStr ''confirmed''), (''updatedAt'', JStr ''2025-07-02T10:00:00.000Z'')]],
          writable = True\<rparr> (JStr ''NX123456ABCD'') =
        Some [(''bookingId'', JStr ''NX123456ABCD''), (''userId'', JStr ''u2''), (''type'', JStr ''bus''),
              (''status'', JStr ''confirmed''), (''updatedAt'', JStr ''2025-07-02T10:00:00.000Z'')]"
    by code_simp
  with k have "kept = [(''bookingId'', JStr ''NX123456ABCD''), (''userId'', JStr ''u2''), (''type'', JStr ''bus''),
              (''status'', JStr ''confirmed''), (''updatedAt'', JStr ''2025-07-02T10:00:00.000Z'')]"
    by simp
  with o show False
    by (simp add: stored_booking_def get_prop_def)
qed

text \<open>The durable backend is handed the update as it came, with the time stamp added.\<close>

lemma mongo_update_unfiltered:
  "isConnected st \<Longrightarrow>
   updateBooking now drv st bid updates =
     (case Booking_findOneAndUpdate drv bid (spread updates [(''updatedAt'', JStr now)]) of
        Inl error \<Rightarrow> None | Inr updated \<Rightarrow> updated, st)"
  by (simp add: updateBooking_def useStorage_def mongo_updateBooking_def)

section \<open>Failover between the backends\<close>

text \<open>
  The gateway's \<open>catch\<close> would retry on the flat file, had the durable operation
  thrown; with the flag down the flat file is used, and a booking saved there under a
  fresh id is found again.
\<close>

lemma useStorage_retry:
  "isConnected st \<Longrightarrow> mongo_op st = (Inl e, st) \<Longrightarrow> json_op st = (Inr r, st1) \<Longrightarrow>
     useStorage st mongo_op json_op null = (r, st1)"
  by (simp add: useStorage_def)

lemma flagged_save:
  "isConnected st \<Longrightarrow> saveBooking drv st booking = (mongo_saveBooking drv st booking, st)"
  by (simp add: saveBooking_def useStorage_def)

lemma flagged_save_throws:
  "isConnected st \<Longrightarrow> Booking_save drv booking = Inl e \<Longrightarrow> saveBooking drv st booking = (None, st)"
  by (simp add: flagged_save mongo_saveBooking_def)

lemma flagged_save_answers:
  "isConnected st \<Longrightarrow> Booking_save drv booking = Inr saved \<Longrightarrow>
     saveBooking drv st booking = (Some saved, st)"
  by (simp add: flagged_save mongo_saveBooking_def)

lemma find_append_last:
  "\<forall>x \<in> set xs. \<not> p x \<Longrightarrow> p y \<Longrightarrow> find p (xs @ [y]) = Some y"
  by (induction xs) simp_all

lemma find_None: "find p xs = None \<Longrightarrow> \<forall>x \<in> set xs. \<not> p x"
  by (simp add: find_None_iff)

lemma file_save_then_get:
  assumes nc: "\<not> isConnected st" and w: "writable st"
    and fx: "\<forall>b \<in> set (read_bookings st). jsonify_obj b = b"
    and id: "get_prop booking ''bookingId'' = JStr bid"
    and fresh: "getBooking st (JStr bid) = None"
  shows "\<exists>st1. saveBooking drv st booking = (Some booking, st1) \<and>
               getBooking st1 (JStr bid) = Some (jsonify_obj booking)"
proof -
  let ?st1 = "st\<lparr>bookingsFile := Some (map jsonify_obj (read_bookings st @ [booking]))\<rparr>"
  have s: "saveBooking drv st booking = (Some booking, ?st1)"
    using nc w by (simp add: saveBooking_file_mode json_saveBooking_def writeFile_def)
  have m: "map jsonify_obj (read_bookings st) = read_bookings st"
    using fx by (rule map_fixpoints)
  have rb: "read_bookings ?st1 = read_bookings st @ [jsonify_obj booking]"
    by (simp add: read_bookings_update m)
  have none: "\<forall>x \<in> set (read_bookings st). \<not> has_id (JStr bid) x"
    using fresh unfolding getBooking_def by (rule find_None)
  have "get_prop (jsonify_obj booking) ''bookingId'' = JStr bid"
    using id by (simp add: get_prop_jsonify_obj)
  then have "has_id (JStr bid) (jsonify_obj booking)"
    by (simp add: has_id_str)
  with none have "getBooking ?st1 (JStr bid) = Some (jsonify_obj booking)"
    unfolding getBooking_def rb by (rule find_append_last)
  with s show ?thesis
    by blast
qed

text \<open>
  Claim C4, where the code departs from it. The gateway's flag says the durable
  backend is healthy, and the driver's save throws. The durable backend's
  \<open>saveBooking\<close> catches the error itself and returns \<open>null\<close>, so the gateway's
  \<open>catch\<close>, which holds the flat-file retry, is never entered: the save returns
  \<open>null\<close>, the flat file is not written and the booking cannot be retrieved, although
  the flat-file save would have succeeded.
\<close>

theorem durable_failure_is_not_retried:
  "isConnected flagged_healthy
   \<and> Booking_save failing_driver new_booking = Inl (Error ''buffering timed out after 10000ms'')
   \<and> saveBooking failing_driver flagged_healthy new_booking = (None, flagged_healthy)
   \<and> getBooking (snd (saveBooking failing_driver flagged_healthy new_booking)) (JStr ''NX654321WXYZ'') = None
   \<and> fst (json_saveBooking flagged_healthy new_booking) = Some new_booking"
proof (intro conjI)
  show "isConnected flagged_healthy"
    by (simp add: flagged_healthy_def)
  show "Booking_save failing_driver new_booking = Inl (Error ''buffering timed out after 10000ms'')"
    by (simp add: failing_driver_def)
  show "saveBooking failing_driver flagged_healthy new_booking = (None, flagged_healthy)"
    by (simp add: saveBooking_def useStorage_def mongo_saveBooking_def flagged_healthy_def failing_driver_def)
  then show "getBooking (snd (saveBooking failing_driver flagged_healthy new_booking))
               (JStr ''NX654321WXYZ'') = None"
    by (simp add: getBooking_def read_bookings_def flagged_healthy_def)
  show "fst (json_saveBooking flagged_healthy new_booking) = Some new_booking"
    by (simp add: json_saveBooking_def writeFile_def flagged_healthy_def Let_def)
qed

lemma example_file_save:
  "\<exists>st1. saveBooking failing_driver file_mode new_booking = (Some new_booking, st1) \<and>
         getBooking st1 (JStr ''NX654321WXYZ'') = Some new_booking"
proof -
  have "get_prop new_booking ''bookingId'' = JStr ''NX654321WXYZ''"
    by (simp add: new_booking_def get_prop_def)
  moreover have "getBooking file_mode (JStr ''NX654321WXYZ'') = None"
    by code_simp
  moreover have "jsonify_obj new_booking = new_booking"
    by (simp add: new_booking_def jsonify_obj_def)
  ultimately show ?thesis
    using file_save_then_get [of file_mode new_booking "''NX654321WXYZ''" failing_driver]
          example_file_mode(1,2,3)
    by simp
qed

end
